theory Spec2Isabelle
  imports Main "HOL-Library.Multiset" "HOL-Library.Char_ord" "HOL-Library.List_Lexorder"
begin

section \<open>Values, errors and HTTP responses\<close>

text \<open>
  Both programs work on parsed JSON: the pages of the star listing, the repository
  objects inside them and the records built from them are Python values obtained from
  \<^verbatim>\<open>response.json()\<close>. A Python \<^verbatim>\<open>str\<close> is represented by its UTF-8 bytes
  (a \<^typ>\<open>string\<close>), so that \<^verbatim>\<open>s.encode('utf-8')\<close> is the identity on the
  representation, and the order of two strings by code points is the lexicographic order
  of their bytes. A dictionary is an association list read with \<^const>\<open>map_of\<close>.
  JSON numbers are the integers (star counts); no claim reads a fractional number.
\<close>

datatype json =
    JNull
  | JBool bool
  | JNum int
  | JStr string
  | JArr "json list"
  | JObj "(string \<times> json) list"

text \<open>
  The exceptions the two files can raise: \<^verbatim>\<open>requests.HTTPError\<close> from
  \<^verbatim>\<open>raise_for_status\<close> (with the status of the response), a failure of the
  transport itself, a body that is not JSON, Python's \<^verbatim>\<open>TypeError\<close>,
  \<^verbatim>\<open>AttributeError\<close>, the \<^verbatim>\<open>ValueError\<close> of \<^verbatim>\<open>main\<close>, and the two
  exceptions of writing a text file.
\<close>

datatype py_error =
    HTTPError (status: nat)
  | ConnectionError
  | JSONDecodeError
  | TypeError
  | AttributeError
  | ValueError
  | OSError
  | UnicodeEncodeError

record response =
  status_code :: nat
  body :: "json option"

type_synonym http_result = "py_error + response"

text \<open>\<^verbatim>\<open>response.raise_for_status()\<close>: raises for a status from 400 to 599.\<close>

definition raise_for_status :: "response \<Rightarrow> py_error + unit" where
  "raise_for_status r =
     (if 400 \<le> status_code r \<and> status_code r < 600 then Inl (HTTPError (status_code r))
      else Inr ())"

text \<open>\<^verbatim>\<open>response.json()\<close>: raises when the body is not JSON (\<open>None\<close>).\<close>

definition response_json :: "response \<Rightarrow> py_error + json" where
  "response_json r = (case body r of None \<Rightarrow> Inl JSONDecodeError | Some j \<Rightarrow> Inr j)"

text \<open>Python's truth value of a parsed JSON value (\<^verbatim>\<open>if not repos\<close>, \<^verbatim>\<open>x or y\<close>).\<close>

fun truthy :: "json \<Rightarrow> bool" where
  "truthy JNull = False"
| "truthy (JBool b) = b"
| "truthy (JNum n) = (n \<noteq> 0)"
| "truthy (JStr s) = (s \<noteq> [])"
| "truthy (JArr xs) = (xs \<noteq> [])"
| "truthy (JObj kvs) = (kvs \<noteq> [])"

text \<open>\<^verbatim>\<open>d.get(k, default)\<close> on a dictionary.\<close>

definition dict_get :: "(string \<times> json) list \<Rightarrow> string \<Rightarrow> json \<Rightarrow> json" where
  "dict_get d k dflt = (case map_of d k of None \<Rightarrow> dflt | Some v \<Rightarrow> v)"

text \<open>\<^verbatim>\<open>q in s\<close> on two strings: \<open>q\<close> occurs in \<open>s\<close> as a contiguous substring.\<close>

fun starts_with :: "string \<Rightarrow> string \<Rightarrow> bool" where
  "starts_with [] s = True"
| "starts_with (c # q) [] = False"
| "starts_with (c # q) (d # s) = (c = d \<and> starts_with q s)"

fun str_contains :: "string \<Rightarrow> string \<Rightarrow> bool" where
  "str_contains q [] = (q = [])"
| "str_contains q (c # s) = (starts_with q (c # s) \<or> str_contains q s)"

text \<open>
  \<^verbatim>\<open>key in item\<close> for a string key: membership among the keys of a dictionary, the
  substring test on a string, membership by equality in a list, and a
  \<^verbatim>\<open>TypeError\<close> on \<^verbatim>\<open>None\<close>, a boolean or a number.
\<close>

fun py_in :: "string \<Rightarrow> json \<Rightarrow> py_error + bool" where
  "py_in k (JObj d) = Inr (map_of d k \<noteq> None)"
| "py_in k (JStr s) = Inr (str_contains k s)"
| "py_in k (JArr xs) = Inr (JStr k \<in> set xs)"
| "py_in k JNull = Inl TypeError"
| "py_in k (JBool b) = Inl TypeError"
| "py_in k (JNum n) = Inl TypeError"

text \<open>
  The characters of a string: a byte from \<open>0x80\<close> to \<open>0xBF\<close> continues the character
  begun before it.
\<close>

definition is_cont :: "char \<Rightarrow> bool" where
  "is_cont c = (128 \<le> (of_char c :: nat) \<and> (of_char c :: nat) < 192)"

fun utf8_chars :: "string \<Rightarrow> string list" where
  "utf8_chars [] = []"
| "utf8_chars (c # cs) =
     (case utf8_chars cs of
        [] \<Rightarrow> [[c]]
      | [] # ws \<Rightarrow> [c] # ws
      | (d # w) # ws \<Rightarrow> if is_cont d then (c # d # w) # ws else [c] # (d # w) # ws)"

text \<open>
  \<^verbatim>\<open>for item in repos\<close>: the elements of a list, the keys of a dictionary, the
  one-character strings of a string, and a \<^verbatim>\<open>TypeError\<close> otherwise.
\<close>

fun py_iter :: "json \<Rightarrow> py_error + json list" where
  "py_iter (JArr xs) = Inr xs"
| "py_iter (JObj d) = Inr (map (\<lambda>kv. JStr (fst kv)) d)"
| "py_iter (JStr s) = Inr (map JStr (utf8_chars s))"
| "py_iter JNull = Inl TypeError"
| "py_iter (JBool b) = Inl TypeError"
| "py_iter (JNum n) = Inl TypeError"

text \<open>\<^verbatim>\<open>len(repos)\<close> of a value that was iterated.\<close>

fun py_len :: "json \<Rightarrow> py_error + nat" where
  "py_len (JArr xs) = Inr (length xs)"
| "py_len (JObj d) = Inr (length d)"
| "py_len (JStr s) = Inr (length (utf8_chars s))"
| "py_len JNull = Inl TypeError"
| "py_len (JBool b) = Inl TypeError"
| "py_len (JNum n) = Inl TypeError"

text \<open>Running a fallible step over a list, stopping at the first exception.\<close>

fun map_result :: "('a \<Rightarrow> 'e + 'b) \<Rightarrow> 'a list \<Rightarrow> 'e + 'b list" where
  "map_result f [] = Inr []"
| "map_result f (x # xs) =
     (case f x of
        Inl e \<Rightarrow> Inl e
      | Inr y \<Rightarrow> (case map_result f xs of Inl e \<Rightarrow> Inl e | Inr ys \<Rightarrow> Inr (y # ys)))"

section \<open>Star records and the extraction of one listing entry\<close>

text \<open>
  The dictionary built for each entry has a fixed set of keys, so it is a record. Its
  values are whatever \<^verbatim>\<open>repo.get\<close> returned: the fields hold parsed JSON. The sync
  script's dictionary has two more keys than the server's.
\<close>

record star_record =
  name :: json
  description :: json
  url :: json
  language :: json
  topics :: json
  stars :: json
  starred_at :: json

record sync_record = star_record +
  last_updated :: json
  homepage :: json

text \<open>
  The server (\<^verbatim>\<open>mcp_server.py\<close>, lines 138 to 150). \<^verbatim>\<open>'repo' not in item\<close> and
  \<^verbatim>\<open>'starred_at' in item\<close> are evaluated on the item whatever it is;
  \<^verbatim>\<open>item['repo']\<close> and \<^verbatim>\<open>item.get\<close> need a dictionary, and so does every
  \<^verbatim>\<open>repo.get\<close>.
\<close>

definition extract_mcp :: "json \<Rightarrow> py_error + star_record" where
  "extract_mcp item =
     (case py_in ''repo'' item of
        Inl e \<Rightarrow> Inl e
      | Inr has_repo \<Rightarrow>
          (case (if \<not> has_repo then Inr item
                 else (case item of JObj d \<Rightarrow> Inr (dict_get d ''repo'' JNull)
                                  | _ \<Rightarrow> Inl TypeError)) of
             Inl e \<Rightarrow> Inl e
           | Inr repo \<Rightarrow>
               (case py_in ''starred_at'' item of
                  Inl e \<Rightarrow> Inl e
                | Inr has_at \<Rightarrow>
                    (case (if has_at
                           then (case item of JObj d \<Rightarrow> Inr (dict_get d ''starred_at'' (JStr ''''))
                                            | _ \<Rightarrow> Inl AttributeError)
                           else Inr (JStr '''')) of
                       Inl e \<Rightarrow> Inl e
                     | Inr at \<Rightarrow>
                         (case repo of
                            JObj r \<Rightarrow>
                              Inr \<lparr> name = dict_get r ''full_name'' (JStr ''''),
                                    description = dict_get r ''description'' (JStr ''''),
                                    url = dict_get r ''html_url'' (JStr ''''),
                                    language = dict_get r ''language'' (JStr ''Unknown''),
                                    topics = dict_get r ''topics'' (JArr []),
                                    stars = dict_get r ''stargazers_count'' (JNum 0),
                                    starred_at = at \<rparr>
                          | _ \<Rightarrow> Inl AttributeError)))))"

text \<open>
  The sync script (\<^verbatim>\<open>sync_stars.py\<close>, lines 45 to 59) guards both tests with
  \<^verbatim>\<open>isinstance(item, dict)\<close>; an item that is not a dictionary is taken as the
  repository itself and fails at the first \<^verbatim>\<open>repo.get\<close>.
\<close>

definition extract_sync :: "json \<Rightarrow> py_error + sync_record" where
  "extract_sync item =
     (let repo = (case item of
                    JObj d \<Rightarrow> (if map_of d ''repo'' = None then item else dict_get d ''repo'' JNull)
                  | _ \<Rightarrow> item);
          at = (case item of
                  JObj d \<Rightarrow> (if map_of d ''starred_at'' \<noteq> None
                             then dict_get d ''starred_at'' (JStr '''') else JStr '''')
                | _ \<Rightarrow> JStr '''')
      in (case repo of
            JObj r \<Rightarrow>
              Inr \<lparr> name = dict_get r ''full_name'' (JStr ''''),
                    description = dict_get r ''description'' (JStr ''''),
                    url = dict_get r ''html_url'' (JStr ''''),
                    language = dict_get r ''language'' (JStr ''Unknown''),
                    topics = dict_get r ''topics'' (JArr []),
                    stars = dict_get r ''stargazers_count'' (JNum 0),
                    starred_at = at,
                    last_updated = dict_get r ''updated_at'' (JStr ''''),
                    homepage = dict_get r ''homepage'' (JStr '''') \<rparr>
          | _ \<Rightarrow> Inl AttributeError))"

section \<open>The paginated fetch\<close>

text \<open>
  The listing is a function from the page number to what \<^verbatim>\<open>requests.get\<close> gives for
  that page: an exception or a response. Each loop returns its result together with the
  page numbers it requested, in order. The loop need not end (a listing can answer every
  page with 100 entries or more), so it is a partial function: \<open>None\<close> is a run that
  never returns.
\<close>

partial_function (option) fetch_loop_mcp ::
  "(nat \<Rightarrow> http_result) \<Rightarrow> nat \<Rightarrow> star_record list \<Rightarrow> nat list
     \<Rightarrow> ((py_error + star_record list) \<times> nat list) option" where
  "fetch_loop_mcp get page all_repos reqs =
     (case get page of
        Inl e \<Rightarrow> Some (Inl e, reqs @ [page])
      | Inr resp \<Rightarrow>
          (case raise_for_status resp of
             Inl e \<Rightarrow> Some (Inl e, reqs @ [page])
           | Inr u \<Rightarrow>
               (case response_json resp of
                  Inl e \<Rightarrow> Some (Inl e, reqs @ [page])
                | Inr repos \<Rightarrow>
                    if \<not> truthy repos then Some (Inr all_repos, reqs @ [page])
                    else (case py_iter repos of
                            Inl e \<Rightarrow> Some (Inl e, reqs @ [page])
                          | Inr items \<Rightarrow>
                              (case map_result extract_mcp items of
                                 Inl e \<Rightarrow> Some (Inl e, reqs @ [page])
                               | Inr recs \<Rightarrow>
                                   (case py_len repos of
                                      Inl e \<Rightarrow> Some (Inl e, reqs @ [page])
                                    | Inr n \<Rightarrow>
                                        if n < 100 then Some (Inr (all_repos @ recs), reqs @ [page])
                                        else fetch_loop_mcp get (page + 1) (all_repos @ recs)
                                               (reqs @ [page])))))))"

definition fetch_starred_repos_mcp ::
  "(nat \<Rightarrow> http_result) \<Rightarrow> ((py_error + star_record list) \<times> nat list) option" where
  "fetch_starred_repos_mcp get = fetch_loop_mcp get 1 [] []"

partial_function (option) fetch_loop_sync ::
  "(nat \<Rightarrow> http_result) \<Rightarrow> nat \<Rightarrow> sync_record list \<Rightarrow> nat list
     \<Rightarrow> ((py_error + sync_record list) \<times> nat list) option" where
  "fetch_loop_sync get page all_repos reqs =
     (case get page of
        Inl e \<Rightarrow> Some (Inl e, reqs @ [page])
      | Inr resp \<Rightarrow>
          (case raise_for_status resp of
             Inl e \<Rightarrow> Some (Inl e, reqs @ [page])
           | Inr u \<Rightarrow>
               (case response_json resp of
                  Inl e \<Rightarrow> Some (Inl e, reqs @ [page])
                | Inr repos \<Rightarrow>
                    if \<not> truthy repos then Some (Inr all_repos, reqs @ [page])
                    else (case py_iter repos of
                            Inl e \<Rightarrow> Some (Inl e, reqs @ [page])
                          | Inr items \<Rightarrow>
                              (case map_result extract_sync items of
                                 Inl e \<Rightarrow> Some (Inl e, reqs @ [page])
                               | Inr recs \<Rightarrow>
                                   (case py_len repos of
                                      Inl e \<Rightarrow> Some (Inl e, reqs @ [page])
                                    | Inr n \<Rightarrow>
                                        if n < 100 then Some (Inr (all_repos @ recs), reqs @ [page])
                                        else fetch_loop_sync get (page + 1) (all_repos @ recs)
                                               (reqs @ [page])))))))"

definition fetch_starred_repos_sync ::
  "(nat \<Rightarrow> http_result) \<Rightarrow> ((py_error + sync_record list) \<times> nat list) option" where
  "fetch_starred_repos_sync get = fetch_loop_sync get 1 [] []"

section \<open>Sorting and slicing as Python does them\<close>

text \<open>
  \<^verbatim>\<open>sorted(xs, key=f, reverse=True)\<close> and \<^verbatim>\<open>xs.sort(key=f, reverse=True)\<close>. CPython
  reverses the list, sorts it with a stable ascending sort on the keys and reverses the
  result, which keeps elements with equal keys in their original order. The sort
  compares keys with \<^verbatim>\<open><\<close> only.

  Python's \<^verbatim>\<open>==\<close> on parsed JSON never raises: numbers are equal by value (booleans
  are the integers 0 and 1), strings and \<^verbatim>\<open>None\<close> to themselves, lists element by
  element, dictionaries when they have the same keys with equal values (the keys of an
  association list are taken to be distinct, as those of a dictionary are).
\<close>

fun is_str :: "json \<Rightarrow> bool" where
  "is_str (JStr s) = True"
| "is_str v = False"

fun str_of :: "json \<Rightarrow> string" where
  "str_of (JStr s) = s"
| "str_of v = []"

fun is_num :: "json \<Rightarrow> bool" where
  "is_num (JNum n) = True"
| "is_num (JBool b) = True"
| "is_num v = False"

fun num_of :: "json \<Rightarrow> int" where
  "num_of (JNum n) = n"
| "num_of (JBool b) = (if b then 1 else 0)"
| "num_of v = 0"

function py_eq :: "json \<Rightarrow> json \<Rightarrow> bool"
  and py_eq_list :: "json list \<Rightarrow> json list \<Rightarrow> bool"
  and py_eq_items :: "(string \<times> json) list \<Rightarrow> (string \<times> json) list \<Rightarrow> bool" where
  "py_eq JNull b = (b = JNull)"
| "py_eq (JBool x) b = (is_num b \<and> num_of (JBool x) = num_of b)"
| "py_eq (JNum x) b = (is_num b \<and> x = num_of b)"
| "py_eq (JStr s) b = (b = JStr s)"
| "py_eq (JArr xs) b = (case b of JArr ys \<Rightarrow> py_eq_list xs ys | _ \<Rightarrow> False)"
| "py_eq (JObj d) b =
     (case b of
        JObj d' \<Rightarrow> py_eq_items d d' \<and> list_all (\<lambda>kv. map_of d (fst kv) \<noteq> None) d'
      | _ \<Rightarrow> False)"
| "py_eq_list [] ys = (ys = [])"
| "py_eq_list (x # xs) ys = (case ys of [] \<Rightarrow> False | y # ys' \<Rightarrow> py_eq x y \<and> py_eq_list xs ys')"
| "py_eq_items [] d' = True"
| "py_eq_items (kv # d) d' =
     ((case map_of d' (fst kv) of None \<Rightarrow> False | Some v' \<Rightarrow> py_eq (snd kv) v')
      \<and> py_eq_items d d')"
  by pat_completeness auto
termination
  by (relation "measure (\<lambda>a. case a of
                   Inl (x, y) \<Rightarrow> size x
                 | Inr (Inl (xs, ys)) \<Rightarrow> size_list size xs
                 | Inr (Inr (d, d')) \<Rightarrow> size_list (\<lambda>kv. Suc (size (snd kv))) d)")
     (auto simp: size_prod_simp)

text \<open>
  Python's \<^verbatim>\<open><\<close>: numbers by value, strings by code points (the byte order of
  UTF-8), lists by the first pair of elements that are not equal and otherwise by
  length; \<^verbatim>\<open>None\<close>, a dictionary, or two values of different kinds raise
  \<^verbatim>\<open>TypeError\<close>.
\<close>

function py_lt :: "json \<Rightarrow> json \<Rightarrow> py_error + bool"
  and py_lt_list :: "json list \<Rightarrow> json list \<Rightarrow> py_error + bool" where
  "py_lt JNull b = Inl TypeError"
| "py_lt (JBool x) b = (if is_num b then Inr (num_of (JBool x) < num_of b) else Inl TypeError)"
| "py_lt (JNum x) b = (if is_num b then Inr (x < num_of b) else Inl TypeError)"
| "py_lt (JStr s) b = (case b of JStr t \<Rightarrow> Inr (s < t) | _ \<Rightarrow> Inl TypeError)"
| "py_lt (JArr xs) b = (case b of JArr ys \<Rightarrow> py_lt_list xs ys | _ \<Rightarrow> Inl TypeError)"
| "py_lt (JObj d) b = Inl TypeError"
| "py_lt_list [] ys = Inr (ys \<noteq> [])"
| "py_lt_list (x # xs) ys =
     (case ys of
        [] \<Rightarrow> Inr False
      | y # ys' \<Rightarrow> if py_eq x y then py_lt_list xs ys' else py_lt x y)"
  by pat_completeness auto
termination
  by (relation "measure (\<lambda>a. case a of
                   Inl (x, y) \<Rightarrow> size x
                 | Inr (xs, ys) \<Rightarrow> size_list size xs)") auto

definition comparable :: "json \<Rightarrow> json \<Rightarrow> bool" where
  "comparable a b = (case py_lt a b of Inl e \<Rightarrow> False | Inr r \<Rightarrow> True)"

text \<open>
  The stable ascending insertion sort by \<^verbatim>\<open><\<close> on the keys (the shape of
  \<^const>\<open>sort_key\<close>), and the sort itself. A list of fewer than two elements is not
  compared. A sort that returns has settled the order of every two keys through
  comparisons that succeeded, and keys joined by a chain of successful comparisons can
  be compared with each other; so the sort raises \<^verbatim>\<open>TypeError\<close> exactly when two
  of the keys cannot be compared, and otherwise its result is that of any stable sort.
\<close>

fun insort_lt :: "('a \<Rightarrow> json) \<Rightarrow> 'a \<Rightarrow> 'a list \<Rightarrow> 'a list" where
  "insort_lt key x [] = [x]"
| "insort_lt key x (y # ys) =
     (if py_lt (key y) (key x) = Inr True then y # insort_lt key x ys else x # y # ys)"

definition sort_lt :: "('a \<Rightarrow> json) \<Rightarrow> 'a list \<Rightarrow> 'a list" where
  "sort_lt key xs = foldr (insort_lt key) xs []"

definition py_sorted_reverse :: "('a \<Rightarrow> json) \<Rightarrow> 'a list \<Rightarrow> py_error + 'a list" where
  "py_sorted_reverse key xs =
     (if length xs < 2 then Inr xs
      else if list_all (\<lambda>x. list_all (\<lambda>y. comparable (key x) (key y)) xs) xs
        then Inr (rev (sort_lt key (rev xs)))
      else Inl TypeError)"

text \<open>
  \<^verbatim>\<open>xs[:limit]\<close>: a non-negative integer keeps that many leading elements, a negative
  one drops that many trailing elements, \<^verbatim>\<open>None\<close> keeps the list, a boolean is the
  integer 0 or 1, and anything else raises \<^verbatim>\<open>TypeError\<close>.
\<close>

definition slice_to_int :: "int \<Rightarrow> 'a list \<Rightarrow> 'a list" where
  "slice_to_int n xs = (if 0 \<le> n then take (nat n) xs else take (length xs - nat (- n)) xs)"

fun py_slice_to :: "json \<Rightarrow> 'a list \<Rightarrow> py_error + 'a list" where
  "py_slice_to (JNum n) xs = Inr (slice_to_int n xs)"
| "py_slice_to (JBool b) xs = Inr (slice_to_int (if b then 1 else 0) xs)"
| "py_slice_to JNull xs = Inr xs"
| "py_slice_to v xs = Inl TypeError"

section \<open>The tool handler of the server\<close>

text \<open>
  \<^verbatim>\<open>arguments.get(k, default)\<close>: the arguments of a call are any JSON value; only a
  dictionary has \<^verbatim>\<open>get\<close>.
\<close>

definition args_get :: "json \<Rightarrow> string \<Rightarrow> json \<Rightarrow> py_error + json" where
  "args_get arguments k dflt =
     (case arguments of JObj d \<Rightarrow> Inr (dict_get d k dflt) | _ \<Rightarrow> Inl AttributeError)"

text \<open>
  \<^verbatim>\<open>v.lower()\<close>: only a string has the method. Python's lower-casing of Unicode text
  is a parameter \<open>lower\<close> of the model.
\<close>

definition py_lower :: "(string \<Rightarrow> string) \<Rightarrow> json \<Rightarrow> py_error + string" where
  "py_lower lower v = (case v of JStr s \<Rightarrow> Inr (lower s) | _ \<Rightarrow> Inl AttributeError)"

text \<open>A list comprehension with a condition that can raise.\<close>

fun filter_result :: "('a \<Rightarrow> 'e + bool) \<Rightarrow> 'a list \<Rightarrow> 'e + 'a list" where
  "filter_result p [] = Inr []"
| "filter_result p (x # xs) =
     (case p x of
        Inl e \<Rightarrow> Inl e
      | Inr b \<Rightarrow> (case filter_result p xs of
                   Inl e \<Rightarrow> Inl e
                 | Inr ys \<Rightarrow> Inr (if b then x # ys else ys)))"

text \<open>\<^verbatim>\<open>any(q in t.lower() for t in ts)\<close>, stopping at the first match.\<close>

fun any_topic :: "(string \<Rightarrow> string) \<Rightarrow> string \<Rightarrow> json list \<Rightarrow> py_error + bool" where
  "any_topic lower q [] = Inr False"
| "any_topic lower q (t # ts) =
     (case py_lower lower t of
        Inl e \<Rightarrow> Inl e
      | Inr s \<Rightarrow> if str_contains q s then Inr True else any_topic lower q ts)"

text \<open>The condition of \<^verbatim>\<open>search_stars\<close>; \<^verbatim>\<open>or\<close> stops at the first true disjunct.\<close>

definition search_match ::
  "(string \<Rightarrow> string) \<Rightarrow> string \<Rightarrow> star_record \<Rightarrow> py_error + bool" where
  "search_match lower query r =
     (case py_lower lower (name r) of
        Inl e \<Rightarrow> Inl e
      | Inr n \<Rightarrow>
          if str_contains query n then Inr True
          else (case py_lower lower (if truthy (description r) then description r else JStr '''') of
                  Inl e \<Rightarrow> Inl e
                | Inr d \<Rightarrow>
                    if str_contains query d then Inr True
                    else (case py_lower lower (language r) of
                            Inl e \<Rightarrow> Inl e
                          | Inr l \<Rightarrow>
                              if str_contains query l then Inr True
                              else (case py_iter (topics r) of
                                      Inl e \<Rightarrow> Inl e
                                    | Inr ts \<Rightarrow> any_topic lower query ts))))"

definition search_stars ::
  "(string \<Rightarrow> string) \<Rightarrow> star_record list \<Rightarrow> json \<Rightarrow> py_error + star_record list" where
  "search_stars lower repos arguments =
     (case args_get arguments ''query'' (JStr '''') of
        Inl e \<Rightarrow> Inl e
      | Inr q \<Rightarrow>
          (case py_lower lower q of
             Inl e \<Rightarrow> Inl e
           | Inr query \<Rightarrow>
               (case args_get arguments ''limit'' (JNum 10) of
                  Inl e \<Rightarrow> Inl e
                | Inr limit \<Rightarrow>
                    (case filter_result (search_match lower query) repos of
                       Inl e \<Rightarrow> Inl e
                     | Inr filtered \<Rightarrow> py_slice_to limit filtered))))"

definition get_stars_by_language ::
  "(string \<Rightarrow> string) \<Rightarrow> star_record list \<Rightarrow> json \<Rightarrow> py_error + star_record list" where
  "get_stars_by_language lower repos arguments =
     (case args_get arguments ''language'' (JStr '''') of
        Inl e \<Rightarrow> Inl e
      | Inr lang \<Rightarrow>
          (case args_get arguments ''limit'' (JNum 10) of
             Inl e \<Rightarrow> Inl e
           | Inr limit \<Rightarrow>
               (case filter_result
                       (\<lambda>r. case py_lower lower (language r) of
                               Inl e \<Rightarrow> Inl e
                             | Inr l \<Rightarrow> (case py_lower lower lang of
                                          Inl e \<Rightarrow> Inl e
                                        | Inr l' \<Rightarrow> Inr (l = l')))
                       repos of
                  Inl e \<Rightarrow> Inl e
                | Inr filtered \<Rightarrow> py_slice_to limit filtered)))"

definition get_stars_by_topic ::
  "(string \<Rightarrow> string) \<Rightarrow> star_record list \<Rightarrow> json \<Rightarrow> py_error + star_record list" where
  "get_stars_by_topic lower repos arguments =
     (case args_get arguments ''topic'' (JStr '''') of
        Inl e \<Rightarrow> Inl e
      | Inr t \<Rightarrow>
          (case py_lower lower t of
             Inl e \<Rightarrow> Inl e
           | Inr topic \<Rightarrow>
               (case args_get arguments ''limit'' (JNum 10) of
                  Inl e \<Rightarrow> Inl e
                | Inr limit \<Rightarrow>
                    (case filter_result
                            (\<lambda>r. case py_iter (topics r) of
                                    Inl e \<Rightarrow> Inl e
                                  | Inr ts \<Rightarrow> any_topic lower topic ts)
                            repos of
                       Inl e \<Rightarrow> Inl e
                     | Inr filtered \<Rightarrow> py_slice_to limit filtered))))"

definition get_top_stars :: "star_record list \<Rightarrow> json \<Rightarrow> py_error + star_record list" where
  "get_top_stars repos arguments =
     (case args_get arguments ''limit'' (JNum 10) of
        Inl e \<Rightarrow> Inl e
      | Inr limit \<Rightarrow>
          (case py_sorted_reverse stars repos of
             Inl e \<Rightarrow> Inl e
           | Inr sorted_repos \<Rightarrow> py_slice_to limit sorted_repos))"

definition get_recent_stars :: "star_record list \<Rightarrow> json \<Rightarrow> py_error + star_record list" where
  "get_recent_stars repos arguments =
     (case args_get arguments ''limit'' (JNum 10) of
        Inl e \<Rightarrow> Inl e
      | Inr limit \<Rightarrow>
          (case py_sorted_reverse starred_at repos of
             Inl e \<Rightarrow> Inl e
           | Inr sorted_repos \<Rightarrow> py_slice_to limit sorted_repos))"

text \<open>
  \<^verbatim>\<open>call_tool\<close> (lines 159 to 218). The records are fetched first, outside any
  \<^verbatim>\<open>try\<close>; then the name selects the branch. A branch serialises its records with
  \<^verbatim>\<open>json.dumps\<close>, a parameter \<open>dumps\<close> of the model. The handler has no
  \<^verbatim>\<open>except\<close> clause: an exception raised anywhere in it leaves it.
\<close>

datatype text_content = TextContent (content_type: string) (content_text: string)

definition text_result ::
  "(star_record list \<Rightarrow> string) \<Rightarrow> py_error + star_record list \<Rightarrow> py_error + text_content list" where
  "text_result dumps r =
     (case r of Inl e \<Rightarrow> Inl e | Inr recs \<Rightarrow> Inr [TextContent ''text'' (dumps recs)])"

definition call_tool ::
  "(string \<Rightarrow> string) \<Rightarrow> (star_record list \<Rightarrow> string) \<Rightarrow> (nat \<Rightarrow> http_result)
     \<Rightarrow> string \<Rightarrow> json \<Rightarrow> (py_error + text_content list) option" where
  "call_tool lower dumps get tool arguments =
     (case fetch_starred_repos_mcp get of
        None \<Rightarrow> None
      | Some (Inl e, reqs) \<Rightarrow> Some (Inl e)
      | Some (Inr repos, reqs) \<Rightarrow>
          Some (if tool = ''search_stars'' then text_result dumps (search_stars lower repos arguments)
                else if tool = ''get_stars_by_language''
                  then text_result dumps (get_stars_by_language lower repos arguments)
                else if tool = ''get_stars_by_topic''
                  then text_result dumps (get_stars_by_topic lower repos arguments)
                else if tool = ''get_top_stars'' then text_result dumps (get_top_stars repos arguments)
                else if tool = ''get_recent_stars''
                  then text_result dumps (get_recent_stars repos arguments)
                else Inr [TextContent ''text'' ''Unknown tool'']))"

text \<open>
  Modelled from the spec: the wrapper that the decorator \<^verbatim>\<open>@app.call_tool()\<close> of the
  \<^verbatim>\<open>mcp\<close> library puts around the handler (line 159). The library is not part of
  the repository, and requests are served through the wrapper, not by the bare
  coroutine. Section 7 of the specification: every failure during a tool call is caught
  and re-surfaced as a textual error result rather than terminating the session. So
  the wrapper returns the content the handler returned, or, when the handler raised, one
  text item with the message of the exception, marked as an error. The message
  \<^verbatim>\<open>str(e)\<close> is a parameter \<open>exc_str\<close> of the model.
\<close>

record call_tool_result =
  result_content :: "text_content list"
  is_error :: bool

definition served_call_tool ::
  "(py_error \<Rightarrow> string) \<Rightarrow> (string \<Rightarrow> string) \<Rightarrow> (star_record list \<Rightarrow> string)
     \<Rightarrow> (nat \<Rightarrow> http_result) \<Rightarrow> string \<Rightarrow> json \<Rightarrow> (py_error + call_tool_result) option" where
  "served_call_tool exc_str lower dumps get tool arguments =
     (case call_tool lower dumps get tool arguments of
        None \<Rightarrow> None
      | Some (Inl e) \<Rightarrow>
          Some (Inr \<lparr> result_content = [TextContent ''text'' (exc_str e)], is_error = True \<rparr>)
      | Some (Inr results) \<Rightarrow>
          Some (Inr \<lparr> result_content = results, is_error = False \<rparr>))"

section \<open>The rendered document\<close>

text \<open>
  An f-string formats a value with Python's \<^verbatim>\<open>str\<close>, which is a parameter \<open>fmt\<close>
  of the model, and so is the formatted time \<open>now\<close>.
  The text outside ASCII is written as its UTF-8 bytes.
\<close>

definition nl :: string where
  "nl = [CHR 0x0A]"

definition map_emoji :: string where
  "map_emoji = [CHR 0xF0, CHR 0x9F, CHR 0x97, CHR 0xBA, CHR 0xEF, CHR 0xB8, CHR 0x8F]"

definition star_emoji :: string where
  "star_emoji = [CHR 0xE2, CHR 0xAD, CHR 0x90]"

definition middle_dot :: string where
  "middle_dot = [CHR 0xC2, CHR 0xB7]"

text \<open>\<^verbatim>\<open>sep.join(parts)\<close> on strings.\<close>

fun join :: "string \<Rightarrow> string list \<Rightarrow> string" where
  "join sep [] = []"
| "join sep [x] = x"
| "join sep (x # y # ys) = x @ sep @ join sep (y # ys)"

text \<open>\<^verbatim>\<open>s.replace(' ', '%20')\<close>.\<close>

definition replace_space :: "string \<Rightarrow> string" where
  "replace_space s = concat (map (\<lambda>c. if c = CHR '' '' then ''%20'' else [c]) s)"

text \<open>
  The elements of \<^verbatim>\<open>repo['topics'][:5]\<close>: the first five of a list or of the
  characters of a string; a dictionary cannot be sliced and a number cannot be
  subscripted.
\<close>

fun first_five :: "json \<Rightarrow> py_error + json list" where
  "first_five (JArr xs) = Inr (take 5 xs)"
| "first_five (JStr s) = Inr (map JStr (take 5 (utf8_chars s)))"
| "first_five v = Inl TypeError"

definition topics_str :: "(json \<Rightarrow> string) \<Rightarrow> json \<Rightarrow> py_error + string" where
  "topics_str fmt ts =
     (if truthy ts
      then (case first_five ts of
              Inl e \<Rightarrow> Inl e
            | Inr items \<Rightarrow>
                Inr (join ('' '' @ middle_dot @ '' '') (map (\<lambda>t. ''`'' @ fmt t @ ''`'') items)))
      else Inr [])"

definition lang_badge :: "(json \<Rightarrow> string) \<Rightarrow> json \<Rightarrow> py_error + string" where
  "lang_badge fmt lang =
     (if lang \<noteq> JStr ''Unknown''
      then (case lang of
              JStr l \<Rightarrow> Inr (''!['' @ fmt lang @ ''](https://img.shields.io/badge/-''
                              @ replace_space l @ ''-grey)'')
            | _ \<Rightarrow> Inl AttributeError)
      else Inr [])"

text \<open>One pass of the loop of \<^verbatim>\<open>generate_markdown\<close> (lines 145 to 165).\<close>

definition render_section :: "(json \<Rightarrow> string) \<Rightarrow> 'a star_record_scheme \<Rightarrow> py_error + string" where
  "render_section fmt repo =
     (case topics_str fmt (topics repo) of
        Inl e \<Rightarrow> Inl e
      | Inr ts \<Rightarrow>
          (case lang_badge fmt (language repo) of
             Inl e \<Rightarrow> Inl e
           | Inr badge \<Rightarrow>
               Inr (''## ['' @ fmt (name repo) @ '']('' @ fmt (url repo) @ '')'' @ nl @ nl
                    @ (if truthy (description repo) then fmt (description repo)
                       else ''_No description provided_'') @ nl @ nl
                    @ badge @ '' '' @ star_emoji @ '' '' @ fmt (stars repo) @ '' stars'' @ nl @ nl
                    @ ts @ nl @ nl
                    @ ''---'' @ nl @ nl)))"

definition md_header :: "(json \<Rightarrow> string) \<Rightarrow> string \<Rightarrow> nat \<Rightarrow> string" where
  "md_header fmt now n =
     ''# '' @ map_emoji @ '' My GitHub Stars'' @ nl @ nl
     @ ''> Last updated: '' @ now @ nl
     @ ''> Total repositories: '' @ fmt (JNum (int n)) @ nl @ nl
     @ ''---'' @ nl @ nl"

text \<open>
  \<^verbatim>\<open>generate_markdown\<close> sorts the caller's list in place and returns the text; the
  model returns both. When it raises, \<^verbatim>\<open>main\<close> ends with the exception and the list
  is not read again.
\<close>

definition generate_markdown ::
  "(json \<Rightarrow> string) \<Rightarrow> string \<Rightarrow> 'a star_record_scheme list
     \<Rightarrow> py_error + ('a star_record_scheme list \<times> string)" where
  "generate_markdown fmt now repos =
     (case py_sorted_reverse starred_at repos of
        Inl e \<Rightarrow> Inl e
      | Inr sorted_repos \<Rightarrow>
          (case map_result (render_section fmt) sorted_repos of
             Inl e \<Rightarrow> Inl e
           | Inr sections \<Rightarrow>
               Inr (sorted_repos, md_header fmt now (length sorted_repos) @ concat sections)))"

section \<open>The commit of the document to the remote repository\<close>

text \<open>
  \<^verbatim>\<open>requests.utils.quote\<close> on bytes: a byte that is a letter, a digit or one of
  \<^verbatim>\<open>_.-~/\<close> stays, any other becomes \<^verbatim>\<open>%XX\<close> in upper-case hexadecimal.
\<close>

definition is_unreserved :: "char \<Rightarrow> bool" where
  "is_unreserved c =
     (c \<in> set ''ABCDEFGHIJKLMNOPQRSTUVWXYZabcdefghijklmnopqrstuvwxyz0123456789_.-~/'')"

definition hex_digit :: "nat \<Rightarrow> char" where
  "hex_digit n = ''0123456789ABCDEF'' ! (n mod 16)"

definition url_quote :: "string \<Rightarrow> string" where
  "url_quote s =
     concat (map (\<lambda>c. if is_unreserved c then [c]
                      else [CHR ''%'', hex_digit (of_char c div 16), hex_digit (of_char c mod 16)]) s)"

text \<open>\<^verbatim>\<open>s.replace('%', '')\<close>.\<close>

definition remove_percent :: "string \<Rightarrow> string" where
  "remove_percent s = filter (\<lambda>c. c \<noteq> CHR ''%'') s"

text \<open>\<^verbatim>\<open>base64.b64encode\<close>: three bytes give four characters, with \<^verbatim>\<open>=\<close> padding.\<close>

definition b64_char :: "nat \<Rightarrow> char" where
  "b64_char n =
     ''ABCDEFGHIJKLMNOPQRSTUVWXYZabcdefghijklmnopqrstuvwxyz0123456789+/'' ! (n mod 64)"

fun b64encode :: "string \<Rightarrow> string" where
  "b64encode [] = []"
| "b64encode [a] =
     [b64_char (of_char a div 4), b64_char ((of_char a mod 4) * 16), CHR ''='', CHR ''='']"
| "b64encode [a, b] =
     [b64_char (of_char a div 4), b64_char ((of_char a mod 4) * 16 + of_char b div 16),
      b64_char ((of_char b mod 16) * 4), CHR ''='']"
| "b64encode (a # b # c # rest) =
     [b64_char (of_char a div 4), b64_char ((of_char a mod 4) * 16 + of_char b div 16),
      b64_char ((of_char b mod 16) * 4 + of_char c div 64), b64_char (of_char c mod 64)]
     @ b64encode rest"

text \<open>\<^verbatim>\<open>payload[k] = v\<close>: replaces the value of an existing key, appends a new one.\<close>

fun dict_set :: "string \<Rightarrow> json \<Rightarrow> (string \<times> json) list \<Rightarrow> (string \<times> json) list" where
  "dict_set k v [] = [(k, v)]"
| "dict_set k v ((k', v') # d) = (if k = k' then (k, v) # d else (k', v') # dict_set k v d)"

text \<open>
  Lines 183 to 190: the \<^verbatim>\<open>sha\<close> of the current file. \<open>get_result\<close> is what
  \<^verbatim>\<open>requests.get\<close> gave: an exception or a response. The bare \<^verbatim>\<open>except\<close> turns
  every exception of the block into \<^verbatim>\<open>None\<close>: one of the request, of
  \<^verbatim>\<open>response.json()\<close>, or the \<^verbatim>\<open>AttributeError\<close> of \<^verbatim>\<open>get\<close> on a body that is
  not a dictionary.
\<close>

definition read_sha :: "http_result \<Rightarrow> json" where
  "read_sha get_result =
     (case get_result of
        Inl e \<Rightarrow> JNull
      | Inr resp \<Rightarrow>
          if status_code resp = 200
          then (case response_json resp of
                  Inl e \<Rightarrow> JNull
                | Inr (JObj d) \<Rightarrow> dict_get d ''sha'' JNull
                | Inr _ \<Rightarrow> JNull)
          else JNull)"

text \<open>
  Lines 192 to 204: the payload. Its \<^verbatim>\<open>content\<close> is first the URL-quoted text with
  the percent signs removed, and is assigned again before the request. The quoting
  function is an argument of this step, so that a property can be stated for every
  function in its place.
\<close>

definition build_payload ::
  "(string \<Rightarrow> string) \<Rightarrow> string \<Rightarrow> string \<Rightarrow> string \<Rightarrow> json \<Rightarrow> (string \<times> json) list" where
  "build_payload quote now branch markdown_content sha =
     (let payload = [(''message'', JStr (''Update starred repos - '' @ now)),
                     (''content'', JStr (remove_percent (quote markdown_content))),
                     (''branch'', JStr branch)];
          payload = (if truthy sha then dict_set ''sha'' sha payload else payload)
      in dict_set ''content'' (JStr (b64encode markdown_content)) payload)"

text \<open>
  \<^verbatim>\<open>commit_to_github\<close>: one \<^verbatim>\<open>GET\<close>, then one \<^verbatim>\<open>PUT\<close> of the payload, then
  \<^verbatim>\<open>raise_for_status\<close>. \<open>put\<close> is what \<^verbatim>\<open>requests.put\<close> gives for a payload. The
  result is paired with the payload that was sent. Owner, repository and token only
  shape the URL and the headers.
\<close>

definition commit_to_github_with ::
  "(string \<Rightarrow> string) \<Rightarrow> string \<Rightarrow> string \<Rightarrow> string \<Rightarrow> http_result
     \<Rightarrow> ((string \<times> json) list \<Rightarrow> http_result) \<Rightarrow> (py_error + unit) \<times> (string \<times> json) list" where
  "commit_to_github_with quote now branch markdown_content get_result put =
     (let payload = build_payload quote now branch markdown_content (read_sha get_result)
      in (case put payload of
            Inl e \<Rightarrow> (Inl e, payload)
          | Inr resp \<Rightarrow> (raise_for_status resp, payload)))"

definition commit_to_github ::
  "string \<Rightarrow> string \<Rightarrow> string \<Rightarrow> http_result
     \<Rightarrow> ((string \<times> json) list \<Rightarrow> http_result) \<Rightarrow> (py_error + unit) \<times> (string \<times> json) list" where
  "commit_to_github = commit_to_github_with url_quote"

section \<open>The mirror into Supermemory\<close>

record sink_request =
  content :: string
  metadata :: "(string \<times> json) list"

text \<open>
  \<^verbatim>\<open>add_memory\<close>: every exception of the request and a status from 400 to 599 give
  \<^verbatim>\<open>False\<close>. \<open>post\<close> is what \<^verbatim>\<open>requests.post\<close> gives for this submission.
\<close>

definition add_memory ::
  "(sink_request \<Rightarrow> http_result) \<Rightarrow> string \<Rightarrow> (string \<times> json) list \<Rightarrow> bool" where
  "add_memory post c m =
     (case post \<lparr> content = c, metadata = m \<rparr> of
        Inl e \<Rightarrow> False
      | Inr resp \<Rightarrow> (case raise_for_status resp of Inl e \<Rightarrow> False | Inr u \<Rightarrow> True))"

text \<open>
  \<^verbatim>\<open>', '.join(repo['topics']) if repo['topics'] else 'None'\<close>: the join needs an
  iterable of strings.
\<close>

definition topics_line :: "json \<Rightarrow> py_error + string" where
  "topics_line ts =
     (if truthy ts
      then (case py_iter ts of
              Inl e \<Rightarrow> Inl e
            | Inr items \<Rightarrow> if list_all is_str items then Inr (join '', '' (map str_of items))
                           else Inl TypeError)
      else Inr ''None'')"

definition memory_content :: "(json \<Rightarrow> string) \<Rightarrow> 'a star_record_scheme \<Rightarrow> py_error + string" where
  "memory_content fmt repo =
     (case topics_line (topics repo) of
        Inl e \<Rightarrow> Inl e
      | Inr joined \<Rightarrow>
          Inr (''Repository: '' @ fmt (name repo) @ nl
               @ ''Description: '' @ (if truthy (description repo) then fmt (description repo)
                                      else ''No description'') @ nl
               @ ''Language: '' @ fmt (language repo) @ nl
               @ ''Topics: '' @ joined @ nl
               @ ''Stars: '' @ fmt (stars repo) @ nl
               @ ''URL: '' @ fmt (url repo) @ nl))"

definition memory_metadata :: "'a star_record_scheme \<Rightarrow> (string \<times> json) list" where
  "memory_metadata repo =
     [(''type'', JStr ''github_star''), (''repo_name'', name repo), (''language'', language repo),
      (''stars'', stars repo), (''url'', url repo)]"

text \<open>
  The loop of \<^verbatim>\<open>sync_repos\<close>. The sink answers the \<open>i\<close>-th submission of a run with
  \<open>post i\<close>. The loop returns the count, or the exception of the f-string, with the
  submissions made so far.
\<close>

fun sync_loop ::
  "(json \<Rightarrow> string) \<Rightarrow> (nat \<Rightarrow> sink_request \<Rightarrow> http_result) \<Rightarrow> 'a star_record_scheme list
     \<Rightarrow> nat \<Rightarrow> sink_request list \<Rightarrow> (py_error + nat) \<times> sink_request list" where
  "sync_loop fmt post [] success_count sent = (Inr success_count, sent)"
| "sync_loop fmt post (repo # repos) success_count sent =
     (case memory_content fmt repo of
        Inl e \<Rightarrow> (Inl e, sent)
      | Inr c \<Rightarrow>
          sync_loop fmt post repos
            (if add_memory (post (length sent)) c (memory_metadata repo)
             then success_count + 1 else success_count)
            (sent @ [\<lparr> content = c, metadata = memory_metadata repo \<rparr>]))"

text \<open>A credential read from the environment counts when it is set and not empty.\<close>

definition present :: "string option \<Rightarrow> bool" where
  "present v = (case v of None \<Rightarrow> False | Some s \<Rightarrow> s \<noteq> [])"

definition sync_repos ::
  "(json \<Rightarrow> string) \<Rightarrow> (nat \<Rightarrow> sink_request \<Rightarrow> http_result) \<Rightarrow> string option
     \<Rightarrow> 'a star_record_scheme list \<Rightarrow> (py_error + nat) \<times> sink_request list" where
  "sync_repos fmt post api_key repos =
     (if \<not> present api_key then (Inr 0, []) else sync_loop fmt post repos 0 [])"

section \<open>The sync run\<close>

text \<open>
  The configuration read from the environment, the answers of the three remote services
  during the run and the two readings of the clock.
\<close>

record config =
  github_username :: "string option"
  github_token :: "string option"
  supermemory_api_key :: "string option"
  target_branch :: string

text \<open>
  The write of \<^verbatim>\<open>starred-repos.md\<close> (lines 249 and 250, outside any \<^verbatim>\<open>try\<close>) can
  fail: \<^verbatim>\<open>open\<close> can raise, and the file is left as it was; or the write can raise
  after the file was opened and truncated, and the file holds what reached it before the
  failure.
\<close>

datatype write_outcome =
    Written
  | OpenFailed py_error
  | WriteFailed py_error string

record world =
  listing :: "nat \<Rightarrow> http_result"
  sink :: "nat \<Rightarrow> sink_request \<Rightarrow> http_result"
  local_write :: "string \<Rightarrow> write_outcome"
  doc_get :: http_result
  doc_put :: "(string \<times> json) list \<Rightarrow> http_result"
  render_time :: string
  commit_time :: string

text \<open>
  What a run does to the outside, in order (\<open>LocalSave\<close> is the attempt to write the
  local file), what it leaves in \<^verbatim>\<open>starred-repos.md\<close>, and how it ends.
\<close>

datatype event =
    ListingRequest nat
  | LocalSave string
  | SinkPost sink_request
  | DocGet
  | DocPut "(string \<times> json) list"
  | CommitFailureReport py_error

record run =
  outcome :: "py_error + unit"
  local_file :: "string option"
  events :: "event list"

definition main :: "(json \<Rightarrow> string) \<Rightarrow> config \<Rightarrow> world \<Rightarrow> string option \<Rightarrow> run option" where
  "main fmt cfg w file0 =
     (if \<not> present (github_username cfg) \<or> \<not> present (github_token cfg)
      then Some \<lparr> outcome = Inl ValueError, local_file = file0, events = [] \<rparr>
      else
        (case fetch_starred_repos_sync (listing w) of
           None \<Rightarrow> None
         | Some (Inl e, reqs) \<Rightarrow>
             Some \<lparr> outcome = Inl e, local_file = file0, events = map ListingRequest reqs \<rparr>
         | Some (Inr repos, reqs) \<Rightarrow>
             if repos = []
             then Some \<lparr> outcome = Inr (), local_file = file0, events = map ListingRequest reqs \<rparr>
             else
               (case generate_markdown fmt (render_time w) repos of
                  Inl e \<Rightarrow>
                    Some \<lparr> outcome = Inl e, local_file = file0,
                           events = map ListingRequest reqs \<rparr>
                | Inr (sorted_repos, markdown_content) \<Rightarrow>
                    (case local_write w markdown_content of
                       OpenFailed e \<Rightarrow>
                         Some \<lparr> outcome = Inl e, local_file = file0,
                                events = map ListingRequest reqs @ [LocalSave markdown_content] \<rparr>
                     | WriteFailed e left \<Rightarrow>
                         Some \<lparr> outcome = Inl e, local_file = Some left,
                                events = map ListingRequest reqs @ [LocalSave markdown_content] \<rparr>
                     | Written \<Rightarrow>
                         (case (if present (supermemory_api_key cfg)
                                then sync_repos fmt (sink w) (supermemory_api_key cfg) sorted_repos
                                else (Inr 0, [])) of
                            (Inl e, sent) \<Rightarrow>
                              Some \<lparr> outcome = Inl e, local_file = Some markdown_content,
                                     events = map ListingRequest reqs @ [LocalSave markdown_content]
                                              @ map SinkPost sent \<rparr>
                          | (Inr n, sent) \<Rightarrow>
                              (case commit_to_github (commit_time w) (target_branch cfg)
                                      markdown_content (doc_get w) (doc_put w) of
                                 (result, payload) \<Rightarrow>
                                   Some \<lparr> outcome = Inr (), local_file = Some markdown_content,
                                          events = map ListingRequest reqs
                                                   @ [LocalSave markdown_content]
                                                   @ map SinkPost sent @ [DocGet, DocPut payload]
                                                   @ (case result of
                                                        Inl e \<Rightarrow> [CommitFailureReport e]
                                                      | Inr u \<Rightarrow> []) \<rparr>))))))"

section \<open>The remote document store\<close>

text \<open>
  Modelled from the spec: the remote document store, a service outside the repository.
  A document has a version token once it exists. A \<^verbatim>\<open>GET\<close> answers with the token or
  with not-found; a \<^verbatim>\<open>PUT\<close> whose token is the stored one (none for a document that
  does not exist) writes the content and gives the document the token \<open>fresh\<close>; any
  other \<^verbatim>\<open>PUT\<close> is refused with the conflict status and changes nothing.
\<close>

record doc_store =
  version_token :: "string option"
  stored_content :: string

definition supplied_token :: "(string \<times> json) list \<Rightarrow> string option" where
  "supplied_token payload = (case map_of payload ''sha'' of Some (JStr t) \<Rightarrow> Some t | _ \<Rightarrow> None)"

definition store_get :: "doc_store \<Rightarrow> response" where
  "store_get st =
     (case version_token st of
        None \<Rightarrow> \<lparr> status_code = 404, body = Some (JObj [(''message'', JStr ''Not Found'')]) \<rparr>
      | Some t \<Rightarrow> \<lparr> status_code = 200,
                     body = Some (JObj [(''sha'', JStr t), (''content'', JStr (stored_content st))]) \<rparr>)"

definition store_put :: "string \<Rightarrow> doc_store \<Rightarrow> (string \<times> json) list \<Rightarrow> response \<times> doc_store" where
  "store_put fresh st payload =
     (if supplied_token payload = version_token st
      then (\<lparr> status_code = (if version_token st = None then 201 else 200),
              body = Some (JObj [(''sha'', JStr fresh)]) \<rparr>,
            \<lparr> version_token = Some fresh,
              stored_content = str_of (dict_get payload ''content'' (JStr '''')) \<rparr>)
      else (\<lparr> status_code = 409, body = Some (JObj [(''message'', JStr ''Conflict'')]) \<rparr>, st))"

section \<open>Inputs the claims are about\<close>

text \<open>
  A raw listing entry as the specification describes it: a dictionary that is either the
  repository object itself or a wrapper whose \<^verbatim>\<open>repo\<close> value is the repository object.
  \<open>entry_repo\<close> is the repository dictionary of such an entry, \<open>entry_dict\<close> the
  entry's own dictionary (where \<^verbatim>\<open>starred_at\<close> is looked up).
\<close>

definition entry_ok :: "json \<Rightarrow> bool" where
  "entry_ok item =
     (case item of
        JObj d \<Rightarrow> (case map_of d ''repo'' of None \<Rightarrow> True | Some (JObj r) \<Rightarrow> True | Some _ \<Rightarrow> False)
      | _ \<Rightarrow> False)"

definition entry_repo :: "json \<Rightarrow> (string \<times> json) list" where
  "entry_repo item =
     (case item of
        JObj d \<Rightarrow> (case map_of d ''repo'' of Some (JObj r) \<Rightarrow> r | _ \<Rightarrow> d)
      | _ \<Rightarrow> [])"

definition entry_dict :: "json \<Rightarrow> (string \<times> json) list" where
  "entry_dict item = (case item of JObj d \<Rightarrow> d | _ \<Rightarrow> [])"

text \<open>The value stored under a key, or the default when the key is absent.\<close>

definition or_default :: "json option \<Rightarrow> json \<Rightarrow> json" where
  "or_default v dflt = (case v of None \<Rightarrow> dflt | Some x \<Rightarrow> x)"

text \<open>
  A request that succeeds (no status from 400 to 599) with a JSON list of the given
  entries as its body.
\<close>

definition returns_page :: "http_result \<Rightarrow> json list \<Rightarrow> bool" where
  "returns_page r entries =
     (case r of
        Inl e \<Rightarrow> False
      | Inr resp \<Rightarrow> \<not> (400 \<le> status_code resp \<and> status_code resp < 600)
                    \<and> body resp = Some (JArr entries))"

text \<open>A listing of exactly 100 stars: one full page, then an empty one.\<close>

definition one_full_page :: "nat \<Rightarrow> http_result" where
  "one_full_page p =
     Inr \<lparr> status_code = 200,
           body = Some (JArr (if p = 1 then replicate 100 (JObj []) else [])) \<rparr>"

text \<open>A star count that is an integer, and its value.\<close>

fun is_int :: "json \<Rightarrow> bool" where
  "is_int (JNum n) = True"
| "is_int v = False"

definition stars_int :: "'a star_record_scheme \<Rightarrow> int" where
  "stars_int r = num_of (stars r)"

text \<open>A record with a name and a star count, every other field at its default.\<close>

definition named :: "string \<Rightarrow> int \<Rightarrow> star_record" where
  "named n s = \<lparr> name = JStr n, description = JStr '''', url = JStr '''',
                 language = JStr ''Unknown'', topics = JArr [], stars = JNum s,
                 starred_at = JStr '''' \<rparr>"

text \<open>A listing that answers every page request with status 500.\<close>

definition failing_listing :: "nat \<Rightarrow> http_result" where
  "failing_listing p = Inr \<lparr> status_code = 500, body = None \<rparr>"

text \<open>The class name of an exception, standing for its message.\<close>

definition error_text :: "py_error \<Rightarrow> string" where
  "error_text e =
     (case e of
        HTTPError s \<Rightarrow> ''HTTPError''
      | ConnectionError \<Rightarrow> ''ConnectionError''
      | JSONDecodeError \<Rightarrow> ''JSONDecodeError''
      | TypeError \<Rightarrow> ''TypeError''
      | AttributeError \<Rightarrow> ''AttributeError''
      | ValueError \<Rightarrow> ''ValueError''
      | OSError \<Rightarrow> ''OSError''
      | UnicodeEncodeError \<Rightarrow> ''UnicodeEncodeError'')"

text \<open>
  Base64 read back, as RFC 4648 defines it: the value of a character is its position in
  the alphabet, four characters give three bytes, and \<^verbatim>\<open>=\<close> marks a last group of
  one or two bytes.
\<close>

definition b64_alphabet :: string where
  "b64_alphabet = ''ABCDEFGHIJKLMNOPQRSTUVWXYZabcdefghijklmnopqrstuvwxyz0123456789+/''"

fun index_of :: "char \<Rightarrow> string \<Rightarrow> nat" where
  "index_of c [] = 0"
| "index_of c (d # ds) = (if c = d then 0 else Suc (index_of c ds))"

definition b64_value :: "char \<Rightarrow> nat" where
  "b64_value c = index_of c b64_alphabet"

fun b64decode :: "string \<Rightarrow> string" where
  "b64decode (a # b # c # d # rest) =
     (if c = CHR ''='' then [char_of (b64_value a * 4 + b64_value b div 16)]
      else if d = CHR ''=''
        then [char_of (b64_value a * 4 + b64_value b div 16),
              char_of ((b64_value b mod 16) * 16 + b64_value c div 4)]
      else [char_of (b64_value a * 4 + b64_value b div 16),
            char_of ((b64_value b mod 16) * 16 + b64_value c div 4),
            char_of ((b64_value c mod 4) * 64 + b64_value d)] @ b64decode rest)"
| "b64decode s = []"

text \<open>
  A read of the current file that did not give a token: the request raised, the answer
  had a status other than 200, or the body of the answer was not JSON or not a
  dictionary (which raises inside the \<^verbatim>\<open>try\<close> block).
\<close>

definition read_failed :: "http_result \<Rightarrow> bool" where
  "read_failed get_result =
     (case get_result of
        Inl e \<Rightarrow> True
      | Inr resp \<Rightarrow> status_code resp \<noteq> 200
                    \<or> (case body resp of None \<Rightarrow> True | Some (JObj d) \<Rightarrow> False | Some v \<Rightarrow> True))"

text \<open>
  The commit run against the modelled store: the \<^verbatim>\<open>PUT\<close> is answered by the store,
  and the result is paired with the store after the request.
\<close>

definition commit_to_store ::
  "string \<Rightarrow> doc_store \<Rightarrow> string \<Rightarrow> string \<Rightarrow> string \<Rightarrow> http_result
     \<Rightarrow> (py_error + unit) \<times> doc_store" where
  "commit_to_store fresh st now branch markdown_content get_result =
     (case commit_to_github now branch markdown_content get_result
             (\<lambda>p. Inr (fst (store_put fresh st p))) of
        (result, payload) \<Rightarrow> (result, snd (store_put fresh st payload)))"

text \<open>A refused write: a response with a status from 400 to 599.\<close>

definition refused :: "response \<Rightarrow> bool" where
  "refused resp = (400 \<le> status_code resp \<and> status_code resp < 600)"

text \<open>The topics of a record of the data model: nothing, or a list of strings.\<close>

definition topics_ok :: "json \<Rightarrow> bool" where
  "topics_ok ts = (\<not> truthy ts \<or> (case ts of JArr xs \<Rightarrow> list_all is_str xs | _ \<Rightarrow> False))"

text \<open>
  How many of the submissions \<open>reqs\<close>, made as the submissions number \<open>i\<close>,
  \<open>i + 1\<close>, \<dots> of a run, \<^verbatim>\<open>add_memory\<close> reports as successful.
\<close>

fun count_accepted :: "(nat \<Rightarrow> sink_request \<Rightarrow> http_result) \<Rightarrow> nat \<Rightarrow> sink_request list \<Rightarrow> nat" where
  "count_accepted post i [] = 0"
| "count_accepted post i (r # rs) =
     (if add_memory (post i) (content r) (metadata r) then 1 else 0) + count_accepted post (Suc i) rs"

text \<open>
  A read that gave the token \<open>T0\<close>, and a store whose document has since been given
  the token \<open>T1\<close>.
\<close>

definition stale_read :: http_result where
  "stale_read = Inr \<lparr> status_code = 200, body = Some (JObj [(''sha'', JStr ''T0'')]) \<rparr>"

definition current_store :: doc_store where
  "current_store = \<lparr> version_token = Some ''T1'', stored_content = ''b2xk'' \<rparr>"

text \<open>
  The string of a record's \<^verbatim>\<open>starred_at\<close>, and the order of the most recent first:
  \<open>ys\<close> is \<open>xs\<close> rearranged, descending in \<^verbatim>\<open>starred_at\<close>, with the records of
  each timestamp in their order in \<open>xs\<close>, and with nothing but empty timestamps after an
  empty one.
\<close>

definition at_str :: "'a star_record_scheme \<Rightarrow> string" where
  "at_str r = str_of (starred_at r)"

definition recency_order :: "'a star_record_scheme list \<Rightarrow> 'a star_record_scheme list \<Rightarrow> bool" where
  "recency_order xs ys \<longleftrightarrow>
     mset ys = mset xs
     \<and> sorted (rev (map at_str ys))
     \<and> (\<forall>k. filter (\<lambda>r. at_str r = k) ys = filter (\<lambda>r. at_str r = k) xs)
     \<and> (\<forall>i j. i < j \<and> j < length ys \<and> at_str (ys ! i) = [] \<longrightarrow> at_str (ys ! j) = [])"

text \<open>A record with a name and a timestamp, every other field at its default.\<close>

definition dated :: "string \<Rightarrow> string \<Rightarrow> star_record" where
  "dated n t = \<lparr> name = JStr n, description = JStr '''', url = JStr '''',
                 language = JStr ''Unknown'', topics = JArr [], stars = JNum 0,
                 starred_at = JStr t \<rparr>"

text \<open>
  A sink that refuses the first submission of a run and accepts the others, a listing of
  one star, a configuration without a sink credential, and a world whose document store
  refuses the write.
\<close>

definition flaky_sink :: "nat \<Rightarrow> sink_request \<Rightarrow> http_result" where
  "flaky_sink i req = (if i = 0 then Inr \<lparr> status_code = 500, body = None \<rparr>
                       else Inr \<lparr> status_code = 200, body = None \<rparr>)"

definition one_star_listing :: "nat \<Rightarrow> http_result" where
  "one_star_listing p =
     Inr \<lparr> status_code = 200,
           body = Some (JArr (if p = 1 then [JObj [(''full_name'', JStr ''octo/cat'')]] else [])) \<rparr>"

definition sync_config :: config where
  "sync_config = \<lparr> github_username = Some ''octo'', github_token = Some ''secret'',
                    supermemory_api_key = None, target_branch = ''main'' \<rparr>"

definition conflict_world :: world where
  "conflict_world =
     \<lparr> listing = one_star_listing, sink = flaky_sink, local_write = (\<lambda>c. Written),
       doc_get = Inr \<lparr> status_code = 200, body = Some (JObj [(''sha'', JStr ''T0'')]) \<rparr>,
       doc_put = (\<lambda>p. Inr \<lparr> status_code = 409, body = None \<rparr>),
       render_time = ''2024-01-01 00:00 UTC'', commit_time = ''2024-01-01 00:01 UTC'' \<rparr>"

text \<open>The same world with a local disk on which the write fails after the file was opened.\<close>

definition full_disk_world :: world where
  "full_disk_world = conflict_world \<lparr> local_write := (\<lambda>c. WriteFailed OSError []) \<rparr>"

section \<open>Properties of the extraction and of the paginated fetch\<close>

lemma extract_sync_ok: "entry_ok item \<Longrightarrow> \<exists>r. extract_sync item = Inr r"
  by (auto simp: entry_ok_def extract_sync_def dict_get_def Let_def split: json.splits option.splits)

lemma extract_mcp_ok: "entry_ok item \<Longrightarrow> \<exists>r. extract_mcp item = Inr r"
  by (auto simp: entry_ok_def extract_mcp_def dict_get_def Let_def split: json.splits option.splits)

lemma map_result_ok:
  "(\<And>x. x \<in> set xs \<Longrightarrow> \<exists>y. f x = Inr y) \<Longrightarrow> \<exists>ys. map_result f xs = Inr ys \<and> length ys = length xs"
proof (induction xs)
  case Nil
  then show ?case by simp
next
  case (Cons x xs)
  then obtain y where y: "f x = Inr y" by auto
  from Cons obtain ys where "map_result f xs = Inr ys" "length ys = length xs" by auto
  with y show ?case by simp
qed

lemma map_result_append:
  "map_result f xs = Inr ys \<Longrightarrow> map_result f xs' = Inr ys' \<Longrightarrow> map_result f (xs @ xs') = Inr (ys @ ys')"
  by (induction xs arbitrary: ys) (auto split: sum.splits)

lemma map_result_length: "map_result f xs = Inr ys \<Longrightarrow> length ys = length xs"
  by (induction xs arbitrary: ys) (auto split: sum.splits)

lemma fetch_loop_sync_pages:
  assumes "\<forall>i<length ps. returns_page (get (p + i)) (ps ! i) \<and> length (ps ! i) = 100
              \<and> list_all entry_ok (ps ! i)"
    and "returns_page (get (p + length ps)) final" "length final < 100" "list_all entry_ok final"
  shows "\<exists>recs. map_result extract_sync (concat ps @ final) = Inr recs
           \<and> fetch_loop_sync get p acc reqs = Some (Inr (acc @ recs), reqs @ [p ..< p + length ps + 1])"
  using assms
proof (induction ps arbitrary: p acc reqs)
  case Nil
  from Nil.prems(4) obtain recs where recs: "map_result extract_sync final = Inr recs"
    using map_result_ok[of final extract_sync] extract_sync_ok by (auto simp: list_all_iff)
  from Nil.prems(2) obtain resp where resp: "get p = Inr resp" "raise_for_status resp = Inr ()"
      "response_json resp = Inr (JArr final)"
    by (auto simp: returns_page_def raise_for_status_def response_json_def split: sum.splits)
  show ?case
  proof (cases "final = []")
    case True
    with resp recs show ?thesis
      by (subst fetch_loop_sync.simps) simp
  next
    case False
    with resp recs Nil.prems(3) show ?thesis
      by (subst fetch_loop_sync.simps) simp
  qed
next
  case (Cons pg ps)
  from Cons.prems(1) have pg: "returns_page (get p) pg" "length pg = 100" "list_all entry_ok pg"
    by force+
  from pg(3) obtain rs where rs: "map_result extract_sync pg = Inr rs"
    using map_result_ok[of pg extract_sync] extract_sync_ok by (auto simp: list_all_iff)
  from pg(1) obtain resp where resp: "get p = Inr resp" "raise_for_status resp = Inr ()"
      "response_json resp = Inr (JArr pg)"
    by (auto simp: returns_page_def raise_for_status_def response_json_def split: sum.splits)
  have rest: "\<forall>i<length ps. returns_page (get (Suc p + i)) (ps ! i) \<and> length (ps ! i) = 100
              \<and> list_all entry_ok (ps ! i)"
  proof (intro allI impI)
    fix i assume "i < length ps"
    then have "Suc i < length (pg # ps)" by simp
    from Cons.prems(1)[rule_format, OF this] show "returns_page (get (Suc p + i)) (ps ! i) \<and> length (ps ! i) = 100
              \<and> list_all entry_ok (ps ! i)" by simp
  qed
  from Cons.prems(2) have fin: "returns_page (get (Suc p + length ps)) final" by simp
  from Cons.IH[OF rest fin Cons.prems(3,4), of "acc @ rs" "reqs @ [p]"]
  obtain recs where recs: "map_result extract_sync (concat ps @ final) = Inr recs"
    "fetch_loop_sync get (Suc p) (acc @ rs) (reqs @ [p]) = Some (Inr ((acc @ rs) @ recs), (reqs @ [p]) @ [Suc p ..< Suc p + length ps + 1])"
    by blast
  have all: "map_result extract_sync (concat (pg # ps) @ final) = Inr (rs @ recs)"
    using map_result_append[OF rs recs(1)] by simp
  have pne: "pg \<noteq> []" using pg(2) by auto
  have "fetch_loop_sync get p acc reqs = fetch_loop_sync get (Suc p) (acc @ rs) (reqs @ [p])"
    using resp rs pg(2) pne by (subst fetch_loop_sync.simps) simp
  also note recs(2)
  finally have run: "fetch_loop_sync get p acc reqs
      = Some (Inr ((acc @ rs) @ recs), (reqs @ [p]) @ [Suc p ..< Suc p + length ps + 1])" .
  have idx: "[p ..< p + length (pg # ps) + 1] = p # [Suc p ..< Suc p + length ps + 1]"
    by (simp add: upt_rec)
  show ?case using all run unfolding idx by simp
qed

lemma fetch_loop_mcp_pages:
  assumes "\<forall>i<length ps. returns_page (get (p + i)) (ps ! i) \<and> length (ps ! i) = 100
              \<and> list_all entry_ok (ps ! i)"
    and "returns_page (get (p + length ps)) final" "length final < 100" "list_all entry_ok final"
  shows "\<exists>recs. map_result extract_mcp (concat ps @ final) = Inr recs
           \<and> fetch_loop_mcp get p acc reqs = Some (Inr (acc @ recs), reqs @ [p ..< p + length ps + 1])"
  using assms
proof (induction ps arbitrary: p acc reqs)
  case Nil
  from Nil.prems(4) obtain recs where recs: "map_result extract_mcp final = Inr recs"
    using map_result_ok[of final extract_mcp] extract_mcp_ok by (auto simp: list_all_iff)
  from Nil.prems(2) obtain resp where resp: "get p = Inr resp" "raise_for_status resp = Inr ()"
      "response_json resp = Inr (JArr final)"
    by (auto simp: returns_page_def raise_for_status_def response_json_def split: sum.splits)
  show ?case
  proof (cases "final = []")
    case True
    with resp recs show ?thesis
      by (subst fetch_loop_mcp.simps) simp
  next
    case False
    with resp recs Nil.prems(3) show ?thesis
      by (subst fetch_loop_mcp.simps) simp
  qed
next
  case (Cons pg ps)
  from Cons.prems(1) have pg: "returns_page (get p) pg" "length pg = 100" "list_all entry_ok pg"
    by force+
  from pg(3) obtain rs where rs: "map_result extract_mcp pg = Inr rs"
    using map_result_ok[of pg extract_mcp] extract_mcp_ok by (auto simp: list_all_iff)
  from pg(1) obtain resp where resp: "get p = Inr resp" "raise_for_status resp = Inr ()"
      "response_json resp = Inr (JArr pg)"
    by (auto simp: returns_page_def raise_for_status_def response_json_def split: sum.splits)
  have rest: "\<forall>i<length ps. returns_page (get (Suc p + i)) (ps ! i) \<and> length (ps ! i) = 100
              \<and> list_all entry_ok (ps ! i)"
  proof (intro allI impI)
    fix i assume "i < length ps"
    then have "Suc i < length (pg # ps)" by simp
    from Cons.prems(1)[rule_format, OF this]
    show "returns_page (get (Suc p + i)) (ps ! i) \<and> length (ps ! i) = 100
              \<and> list_all entry_ok (ps ! i)" by simp
  qed
  from Cons.prems(2) have fin: "returns_page (get (Suc p + length ps)) final" by simp
  from Cons.IH[OF rest fin Cons.prems(3,4), of "acc @ rs" "reqs @ [p]"]
  obtain recs where recs: "map_result extract_mcp (concat ps @ final) = Inr recs"
    "fetch_loop_mcp get (Suc p) (acc @ rs) (reqs @ [p])
       = Some (Inr ((acc @ rs) @ recs), (reqs @ [p]) @ [Suc p ..< Suc p + length ps + 1])"
    by blast
  have all: "map_result extract_mcp (concat (pg # ps) @ final) = Inr (rs @ recs)"
    using map_result_append[OF rs recs(1)] by simp
  have pne: "pg \<noteq> []" using pg(2) by auto
  have "fetch_loop_mcp get p acc reqs = fetch_loop_mcp get (Suc p) (acc @ rs) (reqs @ [p])"
    using resp rs pg(2) pne by (subst fetch_loop_mcp.simps) simp
  also note recs(2)
  finally have run: "fetch_loop_mcp get p acc reqs
      = Some (Inr ((acc @ rs) @ recs), (reqs @ [p]) @ [Suc p ..< Suc p + length ps + 1])" .
  have idx: "[p ..< p + length (pg # ps) + 1] = p # [Suc p ..< Suc p + length ps + 1]"
    by (simp add: upt_rec)
  show ?case using all run unfolding idx by simp
qed

lemma length_concat_full:
  "\<forall>i<length ps. length (ps ! i) = (c::nat) \<Longrightarrow> length (concat ps) = c * length ps"
proof (induction ps)
  case Nil
  then show ?case by simp
next
  case (Cons p ps)
  have "length p = c" using Cons.prems by force
  moreover have "\<forall>i<length ps. length (ps ! i) = c"
  proof (intro allI impI)
    fix i assume "i < length ps"
    then have "Suc i < length (p # ps)" by simp
    from Cons.prems[rule_format, OF this] show "length (ps ! i) = c" by simp
  qed
  ultimately show ?case using Cons.IH by simp
qed

text \<open>
  Claim C1. Let the listing answer pages \<open>1, \<dots>, k\<close> with exactly 100 entries each and
  page \<open>k + 1\<close> with \<open>m < 100\<close> entries, every entry a repository dictionary or a
  wrapper of one. Then both fetch loops return, with the extraction of all
  \<open>100 k + m\<close> entries in the order of the pages, after requesting exactly the pages
  \<open>1, \<dots>, k + 1\<close>. With \<open>m = 0\<close> this is the exact multiple: the last request is the
  one answered by the empty page. The number of pages is whatever the listing has.
\<close>

theorem pagination_total:
  assumes full: "\<forall>i<length ps. returns_page (get (Suc i)) (ps ! i) \<and> length (ps ! i) = 100
                    \<and> list_all entry_ok (ps ! i)"
    and last: "returns_page (get (Suc (length ps))) final"
    and short: "length final < 100"
    and ok: "list_all entry_ok final"
  shows "(\<exists>recs. fetch_starred_repos_sync get = Some (Inr recs, [1 ..< length ps + 2])
            \<and> map_result extract_sync (concat ps @ final) = Inr recs
            \<and> length recs = 100 * length ps + length final)
       \<and> (\<exists>recs. fetch_starred_repos_mcp get = Some (Inr recs, [1 ..< length ps + 2])
            \<and> map_result extract_mcp (concat ps @ final) = Inr recs
            \<and> length recs = 100 * length ps + length final)
       \<and> length [1 ..< length ps + 2] = length ps + 1"
proof -
  have full': "\<forall>i<length ps. returns_page (get (1 + i)) (ps ! i) \<and> length (ps ! i) = 100
                    \<and> list_all entry_ok (ps ! i)"
    using full by simp
  have last': "returns_page (get (1 + length ps)) final" using last by simp
  have len: "length (concat ps @ final) = 100 * length ps + length final"
    using length_concat_full[of ps 100] full by simp
  from fetch_loop_sync_pages[OF full' last' short ok, of "[]" "[]"]
  obtain rs where rs: "map_result extract_sync (concat ps @ final) = Inr rs"
    "fetch_loop_sync get 1 [] [] = Some (Inr rs, [1 ..< 1 + length ps + 1])" by auto
  from fetch_loop_mcp_pages[OF full' last' short ok, of "[]" "[]"]
  obtain rm where rm: "map_result extract_mcp (concat ps @ final) = Inr rm"
    "fetch_loop_mcp get 1 [] [] = Some (Inr rm, [1 ..< 1 + length ps + 1])" by auto
  have n: "1 + length ps + 1 = length ps + 2" by simp
  have ls: "length rs = 100 * length ps + length final"
    using map_result_length[OF rs(1)] len by simp
  have lm: "length rm = 100 * length ps + length final"
    using map_result_length[OF rm(1)] len by simp
  have s: "fetch_starred_repos_sync get = Some (Inr rs, [1 ..< length ps + 2])"
    unfolding fetch_starred_repos_sync_def using rs(2) unfolding n .
  have m: "fetch_starred_repos_mcp get = Some (Inr rm, [1 ..< length ps + 2])"
    unfolding fetch_starred_repos_mcp_def using rm(2) unfolding n .
  have c: "length [1 ..< length ps + 2] = length ps + 1" unfolding length_upt by simp
  from s rs(1) ls m rm(1) lm c show ?thesis by blast
qed

theorem pagination_total_witness:
  "returns_page (one_full_page 1) (replicate 100 (JObj []))
   \<and> returns_page (one_full_page 2) []
   \<and> (\<exists>recs. fetch_starred_repos_sync one_full_page = Some (Inr recs, [1, 2]) \<and> length recs = 100)
   \<and> (\<exists>recs. fetch_starred_repos_mcp one_full_page = Some (Inr recs, [1, 2]) \<and> length recs = 100)"
proof -
  have p1: "returns_page (one_full_page 1) (replicate 100 (JObj []))"
    by (simp add: returns_page_def one_full_page_def)
  have p2: "returns_page (one_full_page 2) []"
    by (simp add: returns_page_def one_full_page_def)
  have ok: "entry_ok (JObj [])" by (simp add: entry_ok_def)
  have full: "\<forall>i<length [replicate 100 (JObj [])].
       returns_page (one_full_page (Suc i)) ([replicate 100 (JObj [])] ! i)
       \<and> length ([replicate 100 (JObj [])] ! i) = 100
       \<and> list_all entry_ok ([replicate 100 (JObj [])] ! i)"
    using p1 ok by (simp add: list_all_iff)
  have last: "returns_page (one_full_page (Suc (length [replicate 100 (JObj [])]))) []"
    using p2 by (simp add: numeral_2_eq_2)
  have upt: "[1 ..< length [replicate 100 (JObj [])] + 2] = [1, 2]"
    by (simp add: upt_rec)
  from pagination_total[OF full last, simplified upt]
  show ?thesis using p1 p2 by auto
qed

text \<open>
  Claim C2, as amended. For an entry that is a repository dictionary, or a wrapper
  whose \<^verbatim>\<open>repo\<close> value is a dictionary, both extractions return one record and do
  not raise; the server's record is the sync script's without its two extra fields.
  Each field is the value stored under its key, whatever that value is, and the default
  only when the key is absent.
\<close>

theorem extract_entry:
  assumes "entry_ok item"
  shows "\<exists>r. extract_sync item = Inr r
           \<and> extract_mcp item = Inr (star_record.truncate r)
           \<and> name r = or_default (map_of (entry_repo item) ''full_name'') (JStr '''')
           \<and> description r = or_default (map_of (entry_repo item) ''description'') (JStr '''')
           \<and> url r = or_default (map_of (entry_repo item) ''html_url'') (JStr '''')
           \<and> language r = or_default (map_of (entry_repo item) ''language'') (JStr ''Unknown'')
           \<and> topics r = or_default (map_of (entry_repo item) ''topics'') (JArr [])
           \<and> stars r = or_default (map_of (entry_repo item) ''stargazers_count'') (JNum 0)
           \<and> starred_at r = or_default (map_of (entry_dict item) ''starred_at'') (JStr '''')
           \<and> last_updated r = or_default (map_of (entry_repo item) ''updated_at'') (JStr '''')
           \<and> homepage r = or_default (map_of (entry_repo item) ''homepage'') (JStr '''')"
  using assms
  by (auto simp: entry_ok_def extract_sync_def extract_mcp_def dict_get_def Let_def or_default_def
        entry_repo_def entry_dict_def star_record.truncate_def
      split: json.splits option.splits)

theorem extract_entry_witness:
  "entry_ok (JObj [(''starred_at'', JStr ''2024-01-01T00:00:00Z''),
                   (''repo'', JObj [(''full_name'', JStr ''octo/cat''),
                                    (''stargazers_count'', JNum 7)])])
   \<and> (\<exists>r. extract_sync (JObj [(''starred_at'', JStr ''2024-01-01T00:00:00Z''),
                   (''repo'', JObj [(''full_name'', JStr ''octo/cat''),
                                    (''stargazers_count'', JNum 7)])]) = Inr r
          \<and> name r = JStr ''octo/cat'' \<and> description r = JStr ''''
          \<and> language r = JStr ''Unknown'' \<and> topics r = JArr [] \<and> stars r = JNum 7
          \<and> starred_at r = JStr ''2024-01-01T00:00:00Z''
          \<and> last_updated r = JStr '''' \<and> homepage r = JStr '''')"
  using extract_entry [of "JObj [(''starred_at'', JStr ''2024-01-01T00:00:00Z''),
                   (''repo'', JObj [(''full_name'', JStr ''octo/cat''),
                                    (''stargazers_count'', JNum 7)])]"]
  by (auto simp: entry_ok_def entry_repo_def entry_dict_def or_default_def)

text \<open>
  The claim as written fails on a field that is present but malformed: a
  \<^verbatim>\<open>null\<close> language is copied into the record, not replaced by
  \<^verbatim>\<open>"Unknown"\<close>; and a wrapper whose \<^verbatim>\<open>repo\<close> value is
  \<^verbatim>\<open>null\<close> makes \<^verbatim>\<open>repo.get\<close> raise.
\<close>

theorem extract_counterexample:
  "extract_sync (JObj [(''full_name'', JStr ''octo/cat''), (''language'', JNull)])
     = Inr \<lparr> name = JStr ''octo/cat'', description = JStr '''', url = JStr '''',
             language = JNull, topics = JArr [], stars = JNum 0, starred_at = JStr '''',
             last_updated = JStr '''', homepage = JStr '''' \<rparr>
   \<and> extract_mcp (JObj [(''full_name'', JStr ''octo/cat''), (''language'', JNull)])
     = Inr \<lparr> name = JStr ''octo/cat'', description = JStr '''', url = JStr '''',
             language = JNull, topics = JArr [], stars = JNum 0, starred_at = JStr '''' \<rparr>
   \<and> extract_sync (JObj [(''repo'', JNull), (''starred_at'', JStr ''2024-01-01T00:00:00Z'')])
     = Inl AttributeError
   \<and> extract_mcp (JObj [(''repo'', JNull), (''starred_at'', JStr ''2024-01-01T00:00:00Z'')])
     = Inl AttributeError"
  by (simp add: extract_sync_def extract_mcp_def dict_get_def)

section \<open>Properties of the queries and of the tool handler\<close>

lemma rev_sort_mset: "mset (rev (sort_key k (rev xs))) = mset xs"
  by simp

lemma rev_sort_desc: "sorted (rev (map k (rev (sort_key k (rev xs)))))"
  by (simp add: rev_map sorted_sort_key)

lemma rev_sort_stable:
  "filter (\<lambda>x. k x = v) (rev (sort_key k (rev xs))) = filter (\<lambda>x. k x = v) xs"
  by (simp add: rev_filter[symmetric] sort_key_stable)

lemma insort_lt_insort_key:
  assumes "\<forall>y\<in>set ys. py_lt (key y) (key x) = Inr (f y < f x)"
  shows "insort_lt key x ys = insort_key f x ys"
  using assms by (induction ys) (auto simp: not_le)

lemma sort_lt_sort_key:
  assumes "\<forall>x\<in>set xs. \<forall>y\<in>set xs. py_lt (key x) (key y) = Inr (f x < f y)"
  shows "sort_lt key xs = sort_key f xs"
  using assms
proof (induction xs)
  case Nil
  then show ?case by (simp add: sort_lt_def)
next
  case (Cons x xs)
  then have IH: "sort_lt key xs = sort_key f xs" by simp
  have "\<forall>y\<in>set (sort_key f xs). py_lt (key y) (key x) = Inr (f y < f x)"
    using Cons.prems by simp
  then have "insort_lt key x (sort_key f xs) = insort_key f x (sort_key f xs)"
    by (rule insort_lt_insort_key)
  then show ?case using IH by (simp add: sort_lt_def)
qed

lemma py_lt_str: "is_str a \<Longrightarrow> is_str b \<Longrightarrow> py_lt a b = Inr (str_of a < str_of b)"
  by (cases a; cases b) auto

lemma py_lt_int: "is_int a \<Longrightarrow> is_int b \<Longrightarrow> py_lt a b = Inr (num_of a < num_of b)"
  by (cases a; cases b) auto

lemma short_list_cases: "length xs < 2 \<Longrightarrow> xs = [] \<or> (\<exists>x. xs = [x])"
  by (cases xs) (auto simp: length_Suc_conv)

lemma short_sorted: "length xs < 2 \<Longrightarrow> rev (sort_key k (rev xs)) = xs"
  using short_list_cases[of xs] by auto

lemma py_sorted_reverse_num:
  assumes "list_all (\<lambda>x. is_int (key x)) xs"
  shows "py_sorted_reverse key xs = Inr (rev (sort_key (\<lambda>x. num_of (key x)) (rev xs)))"
proof (cases "length xs < 2")
  case True
  then show ?thesis by (simp add: py_sorted_reverse_def short_sorted)
next
  case False
  have lt: "\<forall>x\<in>set (rev xs). \<forall>y\<in>set (rev xs).
              py_lt (key x) (key y) = Inr (num_of (key x) < num_of (key y))"
    using assms by (simp add: list_all_iff py_lt_int)
  then have cmp: "list_all (\<lambda>x. list_all (\<lambda>y. comparable (key x) (key y)) xs) xs"
    by (simp add: list_all_iff comparable_def)
  show ?thesis
    using False cmp sort_lt_sort_key[OF lt] by (simp add: py_sorted_reverse_def)
qed

lemma py_sorted_reverse_str:
  assumes "list_all (\<lambda>x. is_str (key x)) xs"
  shows "py_sorted_reverse key xs = Inr (rev (sort_key (\<lambda>x. str_of (key x)) (rev xs)))"
proof (cases "length xs < 2")
  case True
  then show ?thesis by (simp add: py_sorted_reverse_def short_sorted)
next
  case False
  have lt: "\<forall>x\<in>set (rev xs). \<forall>y\<in>set (rev xs).
              py_lt (key x) (key y) = Inr (str_of (key x) < str_of (key y))"
    using assms by (simp add: list_all_iff py_lt_str)
  then have cmp: "list_all (\<lambda>x. list_all (\<lambda>y. comparable (key x) (key y)) xs) xs"
    by (simp add: list_all_iff comparable_def)
  show ?thesis
    using False cmp sort_lt_sort_key[OF lt] by (simp add: py_sorted_reverse_def)
qed

text \<open>
  The sort on keys that are lists, on keys that cannot be compared, and on a single key
  that could not be compared with anything.
\<close>

lemma py_sorted_reverse_examples:
  "py_sorted_reverse id [JArr [JNum 1], JArr [JNum 2, JNull], JArr [], JArr [JNum 2, JNull]]
     = Inr [JArr [JNum 2, JNull], JArr [JNum 2, JNull], JArr [JNum 1], JArr []]"
  "py_sorted_reverse id [JStr ''a'', JNum 2] = Inl TypeError"
  "py_sorted_reverse id [JStr ''a'', JNull] = Inl TypeError"
  "py_sorted_reverse id [JNull] = Inr [JNull]"
  by (simp_all add: py_sorted_reverse_def comparable_def sort_lt_def)

text \<open>
  Claim C5. For records whose star counts are integers and an integer limit \<open>n\<close>,
  \<^verbatim>\<open>get_top_stars\<close> returns \<^verbatim>\<open>ranked[:n]\<close> where \<open>ranked\<close> is a rearrangement
  of the records in descending order of stars in which the records of every star count
  keep their original relative order. The witness is the example of the specification:
  stars 5, 90, 3, 90 and limit 2 give the two records with 90 stars, in their original
  order.
\<close>

theorem top_stars_stable:
  assumes ints: "list_all (\<lambda>r. is_int (stars r)) repos"
    and limit: "dict_get d ''limit'' (JNum 10) = JNum n"
  shows "\<exists>ranked. get_top_stars repos (JObj d) = Inr (slice_to_int n ranked)
           \<and> mset ranked = mset repos
           \<and> sorted (rev (map stars_int ranked))
           \<and> (\<forall>k. filter (\<lambda>r. stars_int r = k) ranked = filter (\<lambda>r. stars_int r = k) repos)"
proof -
  let ?ranked = "rev (sort_key stars_int (rev repos))"
  have key: "(\<lambda>x. num_of (stars x)) = stars_int"
    by (simp add: stars_int_def fun_eq_iff)
  have "py_sorted_reverse stars repos = Inr ?ranked"
    using py_sorted_reverse_num[OF ints] unfolding key .
  then have "get_top_stars repos (JObj d) = Inr (slice_to_int n ?ranked)"
    using limit by (simp add: get_top_stars_def args_get_def)
  moreover have "mset ?ranked = mset repos" by (rule rev_sort_mset)
  moreover have "sorted (rev (map stars_int ?ranked))" by (rule rev_sort_desc)
  moreover have "\<forall>k. filter (\<lambda>r. stars_int r = k) ?ranked = filter (\<lambda>r. stars_int r = k) repos"
    by (intro allI) (rule rev_sort_stable)
  ultimately show ?thesis by blast
qed

theorem top_stars_stable_witness:
  "list_all (\<lambda>r. is_int (stars r))
     [named ''a'' 5, named ''b'' 90, named ''c'' 3, named ''d'' 90]
   \<and> dict_get [(''limit'', JNum 2)] ''limit'' (JNum 10) = JNum 2
   \<and> (\<exists>ranked. get_top_stars [named ''a'' 5, named ''b'' 90, named ''c'' 3, named ''d'' 90]
                    (JObj [(''limit'', JNum 2)]) = Inr (slice_to_int 2 ranked)
          \<and> slice_to_int 2 ranked = [named ''b'' 90, named ''d'' 90]
          \<and> sorted (rev (map stars_int ranked)))"
proof -
  have ints: "list_all (\<lambda>r. is_int (stars r))
     [named ''a'' 5, named ''b'' 90, named ''c'' 3, named ''d'' 90]"
    by (simp add: named_def)
  have limit: "dict_get [(''limit'', JNum 2)] ''limit'' (JNum 10) = JNum 2"
    by (simp add: dict_get_def)
  have run: "get_top_stars [named ''a'' 5, named ''b'' 90, named ''c'' 3, named ''d'' 90]
          (JObj [(''limit'', JNum 2)]) = Inr [named ''b'' 90, named ''d'' 90]"
    by (simp add: get_top_stars_def args_get_def dict_get_def py_sorted_reverse_def comparable_def sort_lt_def named_def
          slice_to_int_def)
  from top_stars_stable[OF ints limit] obtain ranked where
    r: "get_top_stars [named ''a'' 5, named ''b'' 90, named ''c'' 3, named ''d'' 90]
          (JObj [(''limit'', JNum 2)]) = Inr (slice_to_int 2 ranked)"
       "sorted (rev (map stars_int ranked))"
    by blast
  from r(1) run have "slice_to_int 2 ranked = [named ''b'' 90, named ''d'' 90]" by simp
  with ints limit r show ?thesis by blast
qed

text \<open>
  The coroutine of the repository catches nothing: when the fetch of the records fails,
  it raises that exception, whatever the tool and its arguments.
\<close>

lemma call_tool_raises_fetch_error:
  assumes "fetch_starred_repos_mcp get = Some (Inl e, reqs)"
  shows "call_tool lower dumps get tool arguments = Some (Inl e)"
  using assms by (simp add: call_tool_def)

lemma failing_fetch: "fetch_starred_repos_mcp failing_listing = Some (Inl (HTTPError 500), [1])"
  unfolding fetch_starred_repos_mcp_def
  by (subst fetch_loop_mcp.simps) (simp add: failing_listing_def raise_for_status_def)

lemma bad_arguments_raise:
  "call_tool lower dumps one_full_page ''get_top_stars'' JNull = Some (Inl AttributeError)"
proof -
  have strs: "one_full_page 1 = Inr \<lparr> status_code = 200,
                  body = Some (JArr (replicate 100 (JObj []))) \<rparr>"
    "one_full_page 2 = Inr \<lparr> status_code = 200, body = Some (JArr []) \<rparr>"
    by (simp_all add: one_full_page_def)
  have full: "\<forall>i<length [replicate 100 (JObj [])].
       returns_page (one_full_page (1 + i)) ([replicate 100 (JObj [])] ! i)
       \<and> length ([replicate 100 (JObj [])] ! i) = 100
       \<and> list_all entry_ok ([replicate 100 (JObj [])] ! i)"
    by (simp add: returns_page_def one_full_page_def entry_ok_def list_all_iff)
  have last: "returns_page (one_full_page (1 + length [replicate 100 (JObj [])])) []"
    by (simp add: returns_page_def one_full_page_def)
  from fetch_loop_mcp_pages[OF full last, of "[]" "[]"]
  obtain recs reqs where "fetch_starred_repos_mcp one_full_page = Some (Inr recs, reqs)"
    unfolding fetch_starred_repos_mcp_def by auto
  then show ?thesis
    by (simp add: call_tool_def text_result_def get_top_stars_def args_get_def)
qed

text \<open>
  Claim C6. A request is served through the wrapper. Whenever the handler raises, and in
  particular whenever the fetch of the records fails with an upstream status or any
  other exception, the caller is returned a result whose content is one text item with
  the message of the exception, marked as an error; no exception leaves the served
  handler.
\<close>

theorem served_failures_are_text:
  "(\<forall>e. call_tool lower dumps get tool arguments = Some (Inl e) \<longrightarrow>
         served_call_tool exc_str lower dumps get tool arguments
           = Some (Inr \<lparr> result_content = [TextContent ''text'' (exc_str e)], is_error = True \<rparr>))
   \<and> (\<forall>e reqs. fetch_starred_repos_mcp get = Some (Inl e, reqs) \<longrightarrow>
         served_call_tool exc_str lower dumps get tool arguments
           = Some (Inr \<lparr> result_content = [TextContent ''text'' (exc_str e)], is_error = True \<rparr>))
   \<and> (\<forall>e. served_call_tool exc_str lower dumps get tool arguments \<noteq> Some (Inl e))"
proof (intro conjI allI impI)
  fix e
  assume "call_tool lower dumps get tool arguments = Some (Inl e)"
  then show "served_call_tool exc_str lower dumps get tool arguments
           = Some (Inr \<lparr> result_content = [TextContent ''text'' (exc_str e)], is_error = True \<rparr>)"
    by (simp add: served_call_tool_def)
next
  fix e reqs
  assume "fetch_starred_repos_mcp get = Some (Inl e, reqs)"
  then have "call_tool lower dumps get tool arguments = Some (Inl e)"
    by (rule call_tool_raises_fetch_error)
  then show "served_call_tool exc_str lower dumps get tool arguments
           = Some (Inr \<lparr> result_content = [TextContent ''text'' (exc_str e)], is_error = True \<rparr>)"
    by (simp add: served_call_tool_def)
next
  fix e
  show "served_call_tool exc_str lower dumps get tool arguments \<noteq> Some (Inl e)"
    by (simp add: served_call_tool_def split: option.splits sum.splits)
qed

theorem served_failures_are_text_witness:
  "fetch_starred_repos_mcp failing_listing = Some (Inl (HTTPError 500), [1])
   \<and> served_call_tool error_text (\<lambda>s. s) (\<lambda>rs. []) failing_listing ''search_stars''
         (JObj [(''query'', JStr ''rust'')])
       = Some (Inr \<lparr> result_content = [TextContent ''text'' ''HTTPError''], is_error = True \<rparr>)
   \<and> call_tool (\<lambda>s. s) (\<lambda>rs. []) one_full_page ''get_top_stars'' JNull
       = Some (Inl AttributeError)
   \<and> served_call_tool error_text (\<lambda>s. s) (\<lambda>rs. []) one_full_page ''get_top_stars'' JNull
       = Some (Inr \<lparr> result_content = [TextContent ''text'' ''AttributeError''],
                     is_error = True \<rparr>)"
proof -
  note t = served_failures_are_text[of "\<lambda>s. s" "\<lambda>rs. []" failing_listing "''search_stars''"
      "JObj [(''query'', JStr ''rust'')]" error_text]
  note u = served_failures_are_text[of "\<lambda>s. s" "\<lambda>rs. []" one_full_page "''get_top_stars''"
      JNull error_text]
  from t failing_fetch
  have a: "served_call_tool error_text (\<lambda>s. s) (\<lambda>rs. []) failing_listing ''search_stars''
         (JObj [(''query'', JStr ''rust'')])
       = Some (Inr \<lparr> result_content = [TextContent ''text'' (error_text (HTTPError 500))],
                     is_error = True \<rparr>)"
    by blast
  from u bad_arguments_raise[of "\<lambda>s. s" "\<lambda>rs. []"]
  have b: "served_call_tool error_text (\<lambda>s. s) (\<lambda>rs. []) one_full_page ''get_top_stars'' JNull
       = Some (Inr \<lparr> result_content = [TextContent ''text'' (error_text AttributeError)],
                     is_error = True \<rparr>)"
    by blast
  from a b failing_fetch bad_arguments_raise[of "\<lambda>s. s" "\<lambda>rs. []"]
  show ?thesis by (simp add: error_text_def)
qed

section \<open>Properties of the commit\<close>

lemma map_of_dict_set: "map_of (dict_set k v d) k = Some v"
  by (induction d) auto

lemma build_payload_eq:
  "build_payload quote now branch md sha =
     [(''message'', JStr (''Update starred repos - '' @ now)),
      (''content'', JStr (b64encode md)),
      (''branch'', JStr branch)] @ (if truthy sha then [(''sha'', sha)] else [])"
  by (simp add: build_payload_def Let_def)

text \<open>The two encodings on known values.\<close>

lemma b64encode_example: "b64encode ''hello'' = ''aGVsbG8='' \<and> b64encode ''Man'' = ''TWFu''"
  by (simp add: b64_char_def)

lemma url_quote_example: "remove_percent (url_quote ''# a/b'') = ''2320a/b''"
  by (simp add: url_quote_def remove_percent_def is_unreserved_def hex_digit_def)

text \<open>
  A commit made with the token the store holds now (or with none, for a document that
  does not exist) is accepted: the store takes the content and a new token.
\<close>

lemma commit_after_current_read:
  assumes "version_token st \<noteq> Some []"
  shows "commit_to_store fresh st now branch md (Inr (store_get st))
           = (Inr (), \<lparr> version_token = Some fresh, stored_content = b64encode md \<rparr>)"
proof (cases "version_token st")
  case None
  then show ?thesis
    by (simp add: commit_to_store_def commit_to_github_def commit_to_github_with_def Let_def
          build_payload_eq store_get_def read_sha_def store_put_def supplied_token_def
          raise_for_status_def dict_get_def)
next
  case (Some t)
  with assms have "t \<noteq> []" by simp
  with Some show ?thesis
    by (simp add: commit_to_store_def commit_to_github_def commit_to_github_with_def Let_def
          build_payload_eq store_get_def read_sha_def response_json_def store_put_def
          supplied_token_def raise_for_status_def dict_get_def)
qed

lemma index_of_nth: "distinct xs \<Longrightarrow> n < length xs \<Longrightarrow> index_of (xs ! n) xs = n"
proof (induction xs arbitrary: n)
  case Nil
  then show ?case by simp
next
  case (Cons x xs)
  show ?case
  proof (cases n)
    case 0
    then show ?thesis by simp
  next
    case (Suc m)
    with Cons.prems have "xs ! m \<in> set xs" "x \<notin> set xs" by auto
    then have "xs ! m \<noteq> x" by auto
    with Suc Cons show ?thesis by simp
  qed
qed

lemma alphabet_distinct: "distinct b64_alphabet"
  by (simp add: b64_alphabet_def)

lemma alphabet_length: "length b64_alphabet = 64"
  by (simp add: b64_alphabet_def)

lemma b64_char_nth: "n < 64 \<Longrightarrow> b64_char n = b64_alphabet ! n"
  by (simp add: b64_char_def b64_alphabet_def)

lemma b64_value_char: "n < 64 \<Longrightarrow> b64_value (b64_char n) = n"
  using index_of_nth[OF alphabet_distinct, of n]
  by (simp add: b64_value_def b64_char_nth alphabet_length)

lemma pad_not_in_alphabet: "CHR ''='' \<notin> set b64_alphabet"
  by (simp add: b64_alphabet_def)

lemma b64_char_not_pad: "n < 64 \<Longrightarrow> b64_char n \<noteq> CHR ''=''"
proof -
  assume "n < 64"
  then have "b64_char n \<in> set b64_alphabet"
    by (simp add: b64_char_nth alphabet_length)
  with pad_not_in_alphabet show ?thesis by auto
qed

lemma byte_lt: "(of_char (c::char) :: nat) < 256"
  by simp

lemma decode_bounds:
  fixes x y z :: nat
  assumes "x < 256" "y < 256" "z < 256"
  shows "x div 4 < 64" "(x mod 4) * 16 + y div 16 < 64" "(y mod 16) * 4 + z div 64 < 64"
    "z mod 64 < 64" "(x mod 4) * 16 < 64" "(y mod 16) * 4 < 64" "y div 16 < 16" "z div 64 < 4"
  using assms by arith+

lemma decode_group:
  fixes x y z :: nat
  assumes "y div 16 < 16" "z div 64 < 4"
  shows "x div 4 * 4 + ((x mod 4) * 16 + y div 16) div 16 = x"
    "((x mod 4) * 16 + y div 16) mod 16 * 16 + ((y mod 16) * 4 + z div 64) div 4 = y"
    "((y mod 16) * 4 + z div 64) mod 4 * 64 + z mod 64 = z"
    "x div 4 * 4 + ((x mod 4) * 16) div 16 = x"
    "((x mod 4) * 16 + y div 16) mod 16 * 16 + ((y mod 16) * 4) div 4 = y"
  using assms by simp_all

lemma b64_roundtrip: "b64decode (b64encode s) = s"
proof (induction s rule: b64encode.induct)
  case 1
  then show ?case by simp
next
  case (2 a)
  note b = decode_bounds[OF byte_lt[of a] byte_lt[of a] byte_lt[of a]]
  note g = decode_group[OF b(7) b(8)]
  show ?case
    by (simp add: b64_value_char b g)
next
  case (3 a b)
  note b = decode_bounds[OF byte_lt[of a] byte_lt[of b] byte_lt[of b]]
  note g = decode_group[OF b(7) b(8)]
  show ?case
    by (simp add: b64_value_char b64_char_not_pad b g)
next
  case (4 a b c rest)
  note b = decode_bounds[OF byte_lt[of a] byte_lt[of b] byte_lt[of c]]
  note g = decode_group[OF b(7) b(8)]
  show ?case
    using 4 by (simp add: b64_value_char b64_char_not_pad b g)
qed

lemma b64encode_length: "length (b64encode s) = 4 * ((length s + 2) div 3)"
proof (induction s rule: b64encode.induct)
  case (4 a b c rest)
  have "(length (a # b # c # rest) + 2) div 3 = Suc ((length rest + 2) div 3)"
    by simp
  with 4 show ?case by simp
qed simp_all

text \<open>
  Claim C7. The \<^verbatim>\<open>content\<close> of the payload passed to \<^verbatim>\<open>requests.put\<close> is the
  base64 encoding of the bytes of the document: it is what \<^verbatim>\<open>b64encode\<close> gives,
  it has four characters for every three bytes, and decoding it gives the document back.
  The URL-quoted value assigned first is overwritten before the request: with any
  function in place of \<^verbatim>\<open>requests.utils.quote\<close> the payload sent and the result are
  the same.
\<close>

theorem sent_content_is_base64:
  "(\<exists>c. map_of (snd (commit_to_github now branch md get_result put)) ''content'' = Some (JStr c)
         \<and> c = b64encode md
         \<and> b64decode c = md
         \<and> length c = 4 * ((length md + 2) div 3))
   \<and> commit_to_github_with quote now branch md get_result put
     = commit_to_github now branch md get_result put"
proof -
  have "map_of (snd (commit_to_github now branch md get_result put)) ''content''
          = Some (JStr (b64encode md))"
    by (simp add: commit_to_github_def commit_to_github_with_def build_payload_eq Let_def
          split: sum.splits)
  moreover have "commit_to_github_with quote now branch md get_result put
     = commit_to_github now branch md get_result put"
    by (simp add: commit_to_github_def commit_to_github_with_def build_payload_eq Let_def
          split: sum.splits)
  ultimately show ?thesis
    using b64_roundtrip[of md] b64encode_length[of md] by blast
qed

theorem sent_content_is_base64_witness:
  "map_of (snd (commit_to_github ''2024-01-01 00:00 UTC'' ''main'' ''doc''
             (Inr \<lparr> status_code = 404, body = None \<rparr>)
             (\<lambda>p. Inr \<lparr> status_code = 201, body = None \<rparr>))) ''content''
     = Some (JStr ''ZG9j'')
   \<and> map_of (snd (commit_to_github ''2024-01-01 00:00 UTC'' ''main'' ''# Stars''
             (Inr \<lparr> status_code = 404, body = None \<rparr>)
             (\<lambda>p. Inr \<lparr> status_code = 201, body = None \<rparr>))) ''content''
     = Some (JStr ''IyBTdGFycw=='')
   \<and> remove_percent (url_quote ''# Stars'') = ''2320Stars''
   \<and> b64decode ''IyBTdGFycw=='' = ''# Stars''"
proof -
  note a = sent_content_is_base64[of "''2024-01-01 00:00 UTC''" "''main''" "''doc''"
      "Inr \<lparr> status_code = 404, body = None \<rparr>"
      "\<lambda>p. Inr \<lparr> status_code = 201, body = None \<rparr>" url_quote]
  note b = sent_content_is_base64[of "''2024-01-01 00:00 UTC''" "''main''" "''# Stars''"
      "Inr \<lparr> status_code = 404, body = None \<rparr>"
      "\<lambda>p. Inr \<lparr> status_code = 201, body = None \<rparr>" url_quote]
  have e1: "b64encode ''doc'' = ''ZG9j''" by (simp add: b64_char_def)
  have e2: "b64encode ''# Stars'' = ''IyBTdGFycw==''" by (simp add: b64_char_def)
  have q: "remove_percent (url_quote ''# Stars'') = ''2320Stars''"
    by (simp add: url_quote_def remove_percent_def is_unreserved_def hex_digit_def)
  from b e2 have d: "b64decode ''IyBTdGFycw=='' = ''# Stars''" by auto
  from a b e1 e2 q d show ?thesis by auto
qed

lemma read_failed_sha: "read_failed get_result \<Longrightarrow> read_sha get_result = JNull"
  by (auto simp: read_failed_def read_sha_def response_json_def
      split: sum.splits option.splits json.splits)

text \<open>
  Claim C10. When the read of the current file raises, or answers with a status other
  than 200 (a server error, a refused credential, anything), the payload of the write
  has no \<^verbatim>\<open>sha\<close>, and the whole commit is the one made when the read answers 404
  (the file does not exist).
\<close>

theorem failed_read_writes_without_token:
  assumes "read_failed get_result"
  shows "map_of (snd (commit_to_github now branch md get_result put)) ''sha'' = None
       \<and> commit_to_github now branch md get_result put
         = commit_to_github now branch md (Inr \<lparr> status_code = 404, body = None \<rparr>) put"
proof -
  have a: "read_sha get_result = JNull" using assms by (rule read_failed_sha)
  have b: "read_sha (Inr \<lparr> status_code = 404, body = None \<rparr>) = JNull"
    by (simp add: read_sha_def)
  show ?thesis
    by (simp add: commit_to_github_def commit_to_github_with_def build_payload_eq Let_def a b
          split: sum.splits)
qed

theorem failed_read_writes_without_token_witness:
  "read_failed (Inr \<lparr> status_code = 500, body = Some (JObj [(''sha'', JStr ''abc'')]) \<rparr>)
   \<and> read_failed (Inl ConnectionError)
   \<and> read_failed (Inr \<lparr> status_code = 401, body = None \<rparr>)
   \<and> read_failed (Inr \<lparr> status_code = 200, body = Some (JArr []) \<rparr>)
   \<and> snd (commit_to_github ''2024-01-01 00:00 UTC'' ''main'' ''doc''
            (Inr \<lparr> status_code = 500, body = Some (JObj [(''sha'', JStr ''abc'')]) \<rparr>)
            (\<lambda>p. Inr \<lparr> status_code = 201, body = None \<rparr>))
       = [(''message'', JStr ''Update starred repos - 2024-01-01 00:00 UTC''),
          (''content'', JStr ''ZG9j''), (''branch'', JStr ''main'')]
   \<and> map_of (snd (commit_to_github ''2024-01-01 00:00 UTC'' ''main'' ''doc''
            (Inl ConnectionError) (\<lambda>p. Inr \<lparr> status_code = 201, body = None \<rparr>))) ''sha'' = None"
proof -
  have f1: "read_failed (Inr \<lparr> status_code = 500, body = Some (JObj [(''sha'', JStr ''abc'')]) \<rparr>)"
    by (simp add: read_failed_def)
  have f2: "read_failed (Inl ConnectionError)"
    by (simp add: read_failed_def)
  have p: "snd (commit_to_github ''2024-01-01 00:00 UTC'' ''main'' ''doc''
            (Inr \<lparr> status_code = 404, body = None \<rparr>)
            (\<lambda>p. Inr \<lparr> status_code = 201, body = None \<rparr>))
       = [(''message'', JStr ''Update starred repos - 2024-01-01 00:00 UTC''),
          (''content'', JStr ''ZG9j''), (''branch'', JStr ''main'')]"
    by (simp add: commit_to_github_def commit_to_github_with_def build_payload_eq Let_def
          read_sha_def b64_char_def)
  have f3: "read_failed (Inr \<lparr> status_code = 401, body = None \<rparr>)"
    "read_failed (Inr \<lparr> status_code = 200, body = Some (JArr []) \<rparr>)"
    by (simp_all add: read_failed_def)
  from failed_read_writes_without_token[OF f1] failed_read_writes_without_token[OF f2] f1 f2 f3 p
  show ?thesis by simp
qed

lemma commit_refused:
  assumes "put (build_payload url_quote now branch md (read_sha get_result)) = Inr resp"
    and "refused resp"
  shows "fst (commit_to_github now branch md get_result put) = Inl (HTTPError (status_code resp))"
  using assms
  by (simp add: commit_to_github_def commit_to_github_with_def Let_def raise_for_status_def
        refused_def)

lemma stale_read_sha: "read_sha stale_read = JStr ''T0''"
  by (simp add: stale_read_def read_sha_def response_json_def dict_get_def)

text \<open>
  Claim C3, as amended. When the read gave the token \<open>t0\<close> and the store holds another
  token, the store refuses the write and keeps its state, and \<^verbatim>\<open>commit_to_github\<close>
  raises the \<^verbatim>\<open>HTTPError\<close> of \<^verbatim>\<open>raise_for_status\<close> with the status of the
  refusal: the exception it raises for every refused write, whatever the reason. One
  \<^verbatim>\<open>PUT\<close> is made and nothing is written.
\<close>

theorem stale_token_is_http_error:
  assumes "read_sha get_result = JStr t0" and "t0 \<noteq> []"
    and "version_token st = Some t1" and "t0 \<noteq> t1"
  shows "commit_to_store fresh st now branch md get_result = (Inl (HTTPError 409), st)
       \<and> (\<forall>resp. refused resp \<longrightarrow>
             fst (commit_to_github now branch md get_result (\<lambda>p. Inr resp))
               = Inl (HTTPError (status_code resp)))"
proof -
  have pl: "build_payload url_quote now branch md (JStr t0) =
     [(''message'', JStr (''Update starred repos - '' @ now)),
      (''content'', JStr (b64encode md)),
      (''branch'', JStr branch), (''sha'', JStr t0)]"
    using assms(2) by (simp add: build_payload_eq)
  have sup: "supplied_token (build_payload url_quote now branch md (JStr t0)) = Some t0"
    unfolding pl by (simp add: supplied_token_def)
  have put: "store_put fresh st (build_payload url_quote now branch md (JStr t0))
               = (\<lparr> status_code = 409, body = Some (JObj [(''message'', JStr ''Conflict'')]) \<rparr>, st)"
    using assms(3,4) sup by (simp add: store_put_def)
  have one: "commit_to_store fresh st now branch md get_result = (Inl (HTTPError 409), st)"
    using assms(1) put
    by (simp add: commit_to_store_def commit_to_github_def commit_to_github_with_def Let_def
          raise_for_status_def)
  have two: "\<forall>resp. refused resp \<longrightarrow>
             fst (commit_to_github now branch md get_result (\<lambda>p. Inr resp))
               = Inl (HTTPError (status_code resp))"
    by (simp add: commit_to_github_def commit_to_github_with_def Let_def raise_for_status_def
          refused_def)
  from one two show ?thesis by blast
qed

theorem stale_token_is_http_error_witness:
  "read_sha stale_read = JStr ''T0'' \<and> version_token current_store = Some ''T1''
   \<and> commit_to_store ''T2'' current_store ''2024-01-01 00:00 UTC'' ''main'' ''doc'' stale_read
       = (Inl (HTTPError 409), current_store)
   \<and> refused \<lparr> status_code = 500, body = None \<rparr>
   \<and> fst (commit_to_github ''2024-01-01 00:00 UTC'' ''main'' ''doc'' stale_read
            (\<lambda>p. Inr \<lparr> status_code = 500, body = None \<rparr>)) = Inl (HTTPError 500)"
proof -
  have v: "version_token current_store = Some ''T1''" by (simp add: current_store_def)
  have r: "refused \<lparr> status_code = 500, body = None \<rparr>" by (simp add: refused_def)
  have n: "''T0'' \<noteq> []" "''T0'' \<noteq> ''T1''" by simp_all
  from stale_token_is_http_error[OF stale_read_sha n(1) v n(2),
      of "''T2''" "''2024-01-01 00:00 UTC''" "''main''" "''doc''"]
  show ?thesis using stale_read_sha v r by auto
qed

text \<open>
  The claim as written fails: the code has no outcome of its own for a conflict. A write
  refused for a stale token, a write refused with the same status for any other reason,
  and a write refused with status 500 all end in the same exception class, the first
  two in the same value.
\<close>

theorem publish_conflict_counterexample:
  "fst (commit_to_github ''2024-01-01 00:00 UTC'' ''main'' ''doc'' stale_read
          (\<lambda>p. Inr (fst (store_put ''T2'' current_store p)))) = Inl (HTTPError 409)
   \<and> fst (commit_to_github ''2024-01-01 00:00 UTC'' ''main'' ''doc'' stale_read
          (\<lambda>p. Inr \<lparr> status_code = 409, body = None \<rparr>)) = Inl (HTTPError 409)
   \<and> fst (commit_to_github ''2024-01-01 00:00 UTC'' ''main'' ''doc'' stale_read
          (\<lambda>p. Inr \<lparr> status_code = 500, body = None \<rparr>)) = Inl (HTTPError 500)"
  by (simp add: commit_to_github_def commit_to_github_with_def Let_def raise_for_status_def
        build_payload_eq stale_read_sha store_put_def supplied_token_def current_store_def)

section \<open>Properties of the mirror\<close>

lemma count_accepted_le: "count_accepted post i reqs \<le> length reqs"
  by (induction reqs arbitrary: i) (auto intro: le_SucI)

lemma topics_ok_line: "topics_ok ts \<Longrightarrow> \<exists>l. topics_line ts = Inr l"
  by (cases ts) (auto simp: topics_ok_def topics_line_def)

lemma topics_ok_content:
  "topics_ok (topics r) \<Longrightarrow> \<exists>c. memory_content fmt r = Inr c"
  using topics_ok_line[of "topics r"] by (auto simp: memory_content_def)

lemma sync_loop_all:
  assumes "list_all (\<lambda>r. topics_ok (topics r)) repos"
  shows "\<exists>reqs. sync_loop fmt post repos c sent
                  = (Inr (c + count_accepted post (length sent) reqs), sent @ reqs)
           \<and> length reqs = length repos
           \<and> (\<forall>i<length repos. memory_content fmt (repos ! i) = Inr (content (reqs ! i))
                  \<and> metadata (reqs ! i) = memory_metadata (repos ! i))"
  using assms
proof (induction repos arbitrary: c sent)
  case Nil
  then show ?case by simp
next
  case (Cons r repos)
  from Cons.prems have ok: "topics_ok (topics r)" and rest: "list_all (\<lambda>r. topics_ok (topics r)) repos"
    by simp_all
  from topics_ok_content[OF ok] obtain line where line: "memory_content fmt r = Inr line" by blast
  let ?req = "\<lparr> content = line, metadata = memory_metadata r \<rparr>"
  let ?c = "if add_memory (post (length sent)) line (memory_metadata r) then c + 1 else c"
  from Cons.IH[OF rest, of ?c "sent @ [?req]"] obtain reqs where
    run: "sync_loop fmt post repos ?c (sent @ [?req])
            = (Inr (?c + count_accepted post (length (sent @ [?req])) reqs), (sent @ [?req]) @ reqs)"
    and len: "length reqs = length repos"
    and each: "\<forall>i<length repos. memory_content fmt (repos ! i) = Inr (content (reqs ! i))
                  \<and> metadata (reqs ! i) = memory_metadata (repos ! i)"
    by blast
  have step: "sync_loop fmt post (r # repos) c sent = sync_loop fmt post repos ?c (sent @ [?req])"
    using line by simp
  have cnt: "?c + count_accepted post (length (sent @ [?req])) reqs
               = c + count_accepted post (length sent) (?req # reqs)"
    by simp
  have all: "\<forall>i<length (r # repos).
               memory_content fmt ((r # repos) ! i) = Inr (content ((?req # reqs) ! i))
               \<and> metadata ((?req # reqs) ! i) = memory_metadata ((r # repos) ! i)"
  proof (intro allI impI)
    fix i assume i: "i < length (r # repos)"
    show "memory_content fmt ((r # repos) ! i) = Inr (content ((?req # reqs) ! i))
               \<and> metadata ((?req # reqs) ! i) = memory_metadata ((r # repos) ! i)"
    proof (cases i)
      case 0
      with line show ?thesis by simp
    next
      case (Suc j)
      with i have "j < length repos" by simp
      with each Suc show ?thesis by simp
    qed
  qed
  have "sync_loop fmt post (r # repos) c sent
          = (Inr (c + count_accepted post (length sent) (?req # reqs)), sent @ (?req # reqs))"
    unfolding step run cnt by simp
  moreover have "length (?req # reqs) = length (r # repos)" using len by simp
  ultimately show ?case using all by blast
qed

text \<open>
  Claim C9. For \<open>N\<close> records of the data model (topics absent or a list of strings) and
  a configured credential, \<^verbatim>\<open>sync_repos\<close> submits every record, one request each
  and in order, whatever the sink answers, and returns the number of submissions that
  \<^verbatim>\<open>add_memory\<close> reported as successful, which is at most \<open>N\<close>. Without a
  credential it returns 0 and submits nothing.
\<close>

theorem mirror_counts_successes:
  assumes "list_all (\<lambda>r. topics_ok (topics r)) repos"
  shows "(present api_key \<longrightarrow>
            (\<exists>reqs. sync_repos fmt post api_key repos = (Inr (count_accepted post 0 reqs), reqs)
               \<and> length reqs = length repos
               \<and> count_accepted post 0 reqs \<le> length repos
               \<and> (\<forall>i<length repos. memory_content fmt (repos ! i) = Inr (content (reqs ! i))
                      \<and> metadata (reqs ! i) = memory_metadata (repos ! i))))
       \<and> (\<not> present api_key \<longrightarrow> sync_repos fmt post api_key repos = (Inr 0, []))"
proof -
  from sync_loop_all[OF assms, of fmt post 0 "[]"] obtain reqs where
    run: "sync_loop fmt post repos 0 [] = (Inr (count_accepted post 0 reqs), reqs)"
    and len: "length reqs = length repos"
    and each: "\<forall>i<length repos. memory_content fmt (repos ! i) = Inr (content (reqs ! i))
                  \<and> metadata (reqs ! i) = memory_metadata (repos ! i)"
    by auto
  have le: "count_accepted post 0 reqs \<le> length repos"
    using count_accepted_le[of post 0 reqs] len by simp
  show ?thesis
    using run len each le by (auto simp: sync_repos_def)
qed

theorem mirror_counts_successes_witness:
  "list_all (\<lambda>r. topics_ok (topics r)) [named ''a'' 5, (named ''b'' 90)\<lparr>topics := JArr [JStr ''cli'']\<rparr>]
   \<and> present (Some ''key'') \<and> \<not> present None
   \<and> (\<exists>reqs. sync_repos str_of flaky_sink (Some ''key'')
                 [named ''a'' 5, (named ''b'' 90)\<lparr>topics := JArr [JStr ''cli'']\<rparr>]
               = (Inr (count_accepted flaky_sink 0 reqs), reqs)
          \<and> length reqs = 2 \<and> count_accepted flaky_sink 0 reqs = 1)
   \<and> sync_repos str_of flaky_sink None
        [named ''a'' 5, (named ''b'' 90)\<lparr>topics := JArr [JStr ''cli'']\<rparr>] = (Inr 0, [])"
proof -
  let ?rs = "[named ''a'' 5, (named ''b'' 90)\<lparr>topics := JArr [JStr ''cli'']\<rparr>]"
  have ok: "list_all (\<lambda>r. topics_ok (topics r)) ?rs"
    by (simp add: named_def topics_ok_def)
  have p: "present (Some ''key'')" "\<not> present None" by (simp_all add: present_def)
  from mirror_counts_successes[OF ok, of "Some ''key''" str_of flaky_sink] p(1)
  obtain reqs where r: "sync_repos str_of flaky_sink (Some ''key'') ?rs
               = (Inr (count_accepted flaky_sink 0 reqs), reqs)" "length reqs = length ?rs"
    by blast
  have one: "fst (sync_repos str_of flaky_sink (Some ''key'') ?rs) = Inr 1"
    by (simp add: sync_repos_def present_def named_def memory_content_def topics_line_def
          add_memory_def flaky_sink_def raise_for_status_def)
  with r(1) have c: "count_accepted flaky_sink 0 reqs = 1" by simp
  from mirror_counts_successes[OF ok, of None str_of flaky_sink] p(2)
  have z: "sync_repos str_of flaky_sink None ?rs = (Inr 0, [])" by blast
  from ok p r c z show ?thesis by auto
qed

section \<open>Properties of the order by recency\<close>

lemma desc_empty_last:
  assumes "sorted (rev (map f ys))" "i < j" "j < length ys" "f (ys ! i) = ([]::string)"
  shows "f (ys ! j) = []"
proof -
  have "map f ys ! j \<le> map f ys ! i"
    using sorted_rev_nth_mono[of "map f ys" i j] assms by simp
  then have "f (ys ! j) \<le> f (ys ! i)" using assms by simp
  with assms(4) show ?thesis by simp
qed

lemma recency_order_sort: "recency_order xs (rev (sort_key at_str (rev xs)))"
  unfolding recency_order_def
proof (intro conjI allI impI)
  show "mset (rev (sort_key at_str (rev xs))) = mset xs" by (rule rev_sort_mset)
  show "sorted (rev (map at_str (rev (sort_key at_str (rev xs)))))" by (rule rev_sort_desc)
  show "filter (\<lambda>r. at_str r = k) (rev (sort_key at_str (rev xs))) = filter (\<lambda>r. at_str r = k) xs" for k
    by (rule rev_sort_stable)
  show "at_str (rev (sort_key at_str (rev xs)) ! j) = []"
    if "i < j \<and> j < length (rev (sort_key at_str (rev xs))) \<and> at_str (rev (sort_key at_str (rev xs)) ! i) = []"
    for i j
    using desc_empty_last[OF rev_sort_desc, of i j at_str xs] that by blast
qed

lemma sort_key_map_comm: "sort_key f (map g xs) = map g (sort_key (\<lambda>x. f (g x)) xs)"
proof (induction xs)
  case Nil
  then show ?case by simp
next
  case (Cons x xs)
  have ins: "insort_key f (g x) (map g ys) = map g (insort_key (\<lambda>x. f (g x)) x ys)" for ys
    by (induction ys) auto
  show ?case using Cons ins by simp
qed

lemma at_key: "(\<lambda>x. str_of (starred_at x)) = at_str"
  by (simp add: at_str_def fun_eq_iff)

lemma sorted_truncate:
  "rev (sort_key at_str (rev (map star_record.truncate rs)))
     = map star_record.truncate (rev (sort_key at_str (rev rs)))"
proof -
  have k: "(\<lambda>x. at_str (star_record.truncate x)) = at_str"
    by (simp add: at_str_def star_record.truncate_def fun_eq_iff)
  have "sort_key at_str (map star_record.truncate (rev rs))
          = map star_record.truncate (sort_key at_str (rev rs))"
    unfolding sort_key_map_comm k ..
  then show ?thesis
    by (simp add: rev_map)
qed

text \<open>
  Claim C4. For records whose \<^verbatim>\<open>starred_at\<close> is a string and an integer limit
  \<open>n\<close>, \<^verbatim>\<open>get_recent_stars\<close> returns the first \<open>n\<close> records of \<open>recent\<close> (for a
  negative \<open>n\<close>, as Python slices, all but the last \<open>- n\<close>), where \<open>recent\<close> is the
  records in descending order of \<^verbatim>\<open>starred_at\<close> compared as strings, equal
  timestamps in their original order, and the records with an empty timestamp after all
  the others. \<^verbatim>\<open>generate_markdown\<close> puts its list in the same order and
  renders one section per record in that order: on the same records, cut to the server's
  fields, the query returns the renderer's order.
\<close>

theorem recent_stars_order:
  assumes "list_all (\<lambda>r. is_str (starred_at r)) repos"
    and "list_all (\<lambda>r. is_str (starred_at r)) rs"
    and "dict_get d ''limit'' (JNum 10) = JNum n"
  shows "(\<exists>recent. recency_order repos recent
            \<and> get_recent_stars repos (JObj d)
                = Inr (if 0 \<le> n then take (nat n) recent
                       else take (length recent - nat (- n)) recent)
            \<and> (0 \<le> n \<longrightarrow> get_recent_stars repos (JObj d) = Inr (take (nat n) recent)))
       \<and> (\<exists>ordered. recency_order rs ordered
            \<and> generate_markdown fmt now rs
                = (case map_result (render_section fmt) ordered of
                     Inl e \<Rightarrow> Inl e
                   | Inr sections \<Rightarrow>
                       Inr (ordered, md_header fmt now (length rs) @ concat sections))
            \<and> get_recent_stars (map star_record.truncate rs) (JObj d)
                = Inr (if 0 \<le> n then take (nat n) (map star_record.truncate ordered)
                       else take (length ordered - nat (- n)) (map star_record.truncate ordered)))"
proof -
  let ?recent = "rev (sort_key at_str (rev repos))"
  let ?ordered = "rev (sort_key at_str (rev rs))"
  have s1: "py_sorted_reverse starred_at repos = Inr ?recent"
    using py_sorted_reverse_str[OF assms(1)] unfolding at_key .
  have s2: "py_sorted_reverse starred_at rs = Inr ?ordered"
    using py_sorted_reverse_str[OF assms(2)] unfolding at_key .
  have t: "list_all (\<lambda>r. is_str (starred_at r)) (map star_record.truncate rs)"
    using assms(2) by (simp add: list_all_iff star_record.truncate_def)
  have s3: "py_sorted_reverse starred_at (map star_record.truncate rs)
              = Inr (map star_record.truncate ?ordered)"
    using py_sorted_reverse_str[OF t] unfolding at_key sorted_truncate .
  have g1: "get_recent_stars repos (JObj d)
              = Inr (if 0 \<le> n then take (nat n) ?recent
                     else take (length ?recent - nat (- n)) ?recent)"
    using s1 assms(3) by (simp add: get_recent_stars_def args_get_def slice_to_int_def)
  have g1': "0 \<le> n \<longrightarrow> get_recent_stars repos (JObj d) = Inr (take (nat n) ?recent)"
    using g1 by simp
  have g3: "get_recent_stars (map star_record.truncate rs) (JObj d)
              = Inr (if 0 \<le> n then take (nat n) (map star_record.truncate ?ordered)
                     else take (length ?ordered - nat (- n)) (map star_record.truncate ?ordered))"
    using s3 assms(3) by (simp add: get_recent_stars_def args_get_def slice_to_int_def)
  have len: "length ?ordered = length rs" by simp
  have g2: "generate_markdown fmt now rs
              = (case map_result (render_section fmt) ?ordered of
                   Inl e \<Rightarrow> Inl e
                 | Inr sections \<Rightarrow>
                     Inr (?ordered, md_header fmt now (length rs) @ concat sections))"
    unfolding generate_markdown_def s2 by (simp only: sum.case len)
  from recency_order_sort[of repos] g1 g1' have first: "\<exists>recent. recency_order repos recent
            \<and> get_recent_stars repos (JObj d)
                = Inr (if 0 \<le> n then take (nat n) recent
                       else take (length recent - nat (- n)) recent)
            \<and> (0 \<le> n \<longrightarrow> get_recent_stars repos (JObj d) = Inr (take (nat n) recent))"
    by blast
  from recency_order_sort[of rs] g2 g3 have second: "\<exists>ordered. recency_order rs ordered
            \<and> generate_markdown fmt now rs
                = (case map_result (render_section fmt) ordered of
                     Inl e \<Rightarrow> Inl e
                   | Inr sections \<Rightarrow>
                       Inr (ordered, md_header fmt now (length rs) @ concat sections))
            \<and> get_recent_stars (map star_record.truncate rs) (JObj d)
                = Inr (if 0 \<le> n then take (nat n) (map star_record.truncate ordered)
                       else take (length ordered - nat (- n)) (map star_record.truncate ordered))"
    by blast
  from first second show ?thesis by blast
qed

theorem recent_stars_order_witness:
  "list_all (\<lambda>r. is_str (starred_at r))
     [dated ''a'' ''2024-01-01T00:00:00Z'', dated ''b'' '''', dated ''c'' ''2023-06-01T00:00:00Z'']
   \<and> dict_get [(''limit'', JNum 2)] ''limit'' (JNum 10) = JNum 2
   \<and> (\<exists>recent. recency_order
          [dated ''a'' ''2024-01-01T00:00:00Z'', dated ''b'' '''', dated ''c'' ''2023-06-01T00:00:00Z'']
          recent
        \<and> get_recent_stars
             [dated ''a'' ''2024-01-01T00:00:00Z'', dated ''b'' '''', dated ''c'' ''2023-06-01T00:00:00Z'']
             (JObj [(''limit'', JNum 2)]) = Inr (take 2 recent)
        \<and> take 2 recent
            = [dated ''a'' ''2024-01-01T00:00:00Z'', dated ''c'' ''2023-06-01T00:00:00Z''])
   \<and> dict_get [] ''limit'' (JNum 10) = JNum 10
   \<and> (\<exists>recent. recency_order
          [dated ''a'' ''2024-01-01T00:00:00Z'', dated ''b'' '''', dated ''c'' ''2023-06-01T00:00:00Z'']
          recent
        \<and> get_recent_stars
             [dated ''a'' ''2024-01-01T00:00:00Z'', dated ''b'' '''', dated ''c'' ''2023-06-01T00:00:00Z'']
             (JObj []) = Inr (take 10 recent)
        \<and> take 10 recent
            = [dated ''a'' ''2024-01-01T00:00:00Z'', dated ''c'' ''2023-06-01T00:00:00Z'',
               dated ''b'' ''''])"
proof -
  let ?xs = "[dated ''a'' ''2024-01-01T00:00:00Z'', dated ''b'' '''',
              dated ''c'' ''2023-06-01T00:00:00Z'']"
  have strs: "list_all (\<lambda>r. is_str (starred_at r)) ?xs"
    by (simp add: dated_def)
  have limit2: "dict_get [(''limit'', JNum 2)] ''limit'' (JNum 10) = JNum 2"
    by (simp add: dict_get_def)
  have limit10: "dict_get [] ''limit'' (JNum 10) = JNum 10"
    by (simp add: dict_get_def)
  have run2: "get_recent_stars ?xs (JObj [(''limit'', JNum 2)])
      = Inr [dated ''a'' ''2024-01-01T00:00:00Z'', dated ''c'' ''2023-06-01T00:00:00Z'']"
    by (simp add: get_recent_stars_def args_get_def dict_get_def py_sorted_reverse_def
          comparable_def sort_lt_def dated_def slice_to_int_def)
  have run10: "get_recent_stars ?xs (JObj [])
      = Inr [dated ''a'' ''2024-01-01T00:00:00Z'', dated ''c'' ''2023-06-01T00:00:00Z'',
             dated ''b'' '''']"
    by (simp add: get_recent_stars_def args_get_def dict_get_def py_sorted_reverse_def
          comparable_def sort_lt_def dated_def slice_to_int_def)
  from recent_stars_order[OF strs strs limit2] obtain recent2 where
    r2: "recency_order ?xs recent2"
        "get_recent_stars ?xs (JObj [(''limit'', JNum 2)]) = Inr (take 2 recent2)"
    by auto
  from recent_stars_order[OF strs strs limit10] obtain recent10 where
    r10: "recency_order ?xs recent10" "get_recent_stars ?xs (JObj []) = Inr (take 10 recent10)"
    by auto
  from r2(2) run2 have c2: "take 2 recent2
      = [dated ''a'' ''2024-01-01T00:00:00Z'', dated ''c'' ''2023-06-01T00:00:00Z'']" by simp
  from r10(2) run10 have c10: "take 10 recent10
      = [dated ''a'' ''2024-01-01T00:00:00Z'', dated ''c'' ''2023-06-01T00:00:00Z'',
         dated ''b'' '''']" by simp
  from strs limit2 limit10 r2 r10 c2 c10 show ?thesis by blast
qed

section \<open>Properties of the sync run\<close>

lemma mirror_returns:
  assumes "list_all (\<lambda>r. topics_ok (topics r)) repos"
  shows "\<exists>n sent. sync_repos fmt post api_key repos = (Inr n, sent)"
proof (cases "present api_key")
  case True
  with sync_loop_all[OF assms, of fmt post 0 "[]"] show ?thesis
    by (auto simp: sync_repos_def)
next
  case False
  then show ?thesis by (simp add: sync_repos_def)
qed

text \<open>
  A run whose local write fails ends there, with the exception of the write: nothing is
  mirrored and the document store is not contacted.
\<close>

lemma failed_write_ends_run:
  assumes "present (github_username cfg)" and "present (github_token cfg)"
    and "fetch_starred_repos_sync (listing w) = Some (Inr repos, reqs)"
    and "repos \<noteq> []"
    and "generate_markdown fmt (render_time w) repos = Inr (sorted_repos, md)"
  shows "local_write w md = WriteFailed e left \<Longrightarrow>
           main fmt cfg w file0
             = Some \<lparr> outcome = Inl e, local_file = Some left,
                      events = map ListingRequest reqs @ [LocalSave md] \<rparr>"
    and "local_write w md = OpenFailed e \<Longrightarrow>
           main fmt cfg w file0
             = Some \<lparr> outcome = Inl e, local_file = file0,
                      events = map ListingRequest reqs @ [LocalSave md] \<rparr>"
  using assms by (simp_all add: main_def)

lemma one_star_fetch:
  "fetch_starred_repos_sync one_star_listing
     = Some (Inr [\<lparr> name = JStr ''octo/cat'', description = JStr '''', url = JStr '''',
                     language = JStr ''Unknown'', topics = JArr [], stars = JNum 0,
                     starred_at = JStr '''', last_updated = JStr '''', homepage = JStr '''' \<rparr>], [1])"
  unfolding fetch_starred_repos_sync_def
  by (subst fetch_loop_sync.simps)
     (simp add: one_star_listing_def raise_for_status_def response_json_def extract_sync_def
        dict_get_def)

text \<open>
  Claim C8. In a run that has credentials, fetched at least one record and rendered the
  document, the write of the local file is attempted right after the listing requests,
  under no condition, and before any request to the document store. The store is
  contacted only after the write succeeded, and then the local file holds the rendered
  document and the run ends normally, whatever the commit does; a commit that fails,
  with any exception, is reported as the last act of the run. The run ends with an
  exception only when the write itself or the mirror raised, and then the store is not
  contacted. When the write succeeds and the mirror is off or its records have the
  topics of the data model, the commit is attempted.
\<close>

theorem local_save_precedes_publish:
  assumes "present (github_username cfg)" and "present (github_token cfg)"
    and "fetch_starred_repos_sync (listing w) = Some (Inr repos, reqs)"
    and "repos \<noteq> []"
    and "generate_markdown fmt (render_time w) repos = Inr (sorted_repos, md)"
  shows "\<exists>r rest. main fmt cfg w file0 = Some r
           \<and> events r = map ListingRequest reqs @ LocalSave md # rest
           \<and> (local_write w md = Written \<longrightarrow> local_file r = Some md)
           \<and> (DocGet \<in> set rest \<longleftrightarrow> outcome r = Inr ())
           \<and> (DocGet \<in> set rest \<longrightarrow> local_write w md = Written \<and> local_file r = Some md)
           \<and> (local_write w md = Written
                \<and> (\<not> present (supermemory_api_key cfg)
                     \<or> list_all (\<lambda>r. topics_ok (topics r)) sorted_repos)
                \<longrightarrow> DocGet \<in> set rest)
           \<and> (\<forall>e. DocGet \<in> set rest
                    \<and> fst (commit_to_github (commit_time w) (target_branch cfg) md
                             (doc_get w) (doc_put w)) = Inl e
                  \<longrightarrow> outcome r = Inr () \<and> local_file r = Some md
                      \<and> last (events r) = CommitFailureReport e)"
proof (cases "local_write w md")
  case (OpenFailed e)
  from failed_write_ends_run(2)[OF assms OpenFailed, of file0]
  show ?thesis using OpenFailed by auto
next
  case (WriteFailed e left)
  from failed_write_ends_run(1)[OF assms WriteFailed, of file0]
  show ?thesis using WriteFailed by auto
next
  case Written
  let ?mirror = "if present (supermemory_api_key cfg)
                 then sync_repos fmt (sink w) (supermemory_api_key cfg) sorted_repos
                 else (Inr 0, [])"
  obtain mres sent where m: "?mirror = (mres, sent)" by (cases ?mirror) auto
  obtain result payload where c: "commit_to_github (commit_time w) (target_branch cfg) md
                             (doc_get w) (doc_put w) = (result, payload)"
    by (cases "commit_to_github (commit_time w) (target_branch cfg) md (doc_get w) (doc_put w)") auto
  have wf: "\<not> present (supermemory_api_key cfg)
                \<or> list_all (\<lambda>r. topics_ok (topics r)) sorted_repos \<Longrightarrow> \<exists>n. mres = Inr n"
    using m mirror_returns[of sorted_repos fmt "sink w" "supermemory_api_key cfg"]
    by (auto split: if_splits)
  show ?thesis
  proof (cases mres)
    case (Inl e)
    with wf have nwf: "\<not> (\<not> present (supermemory_api_key cfg)
                \<or> list_all (\<lambda>r. topics_ok (topics r)) sorted_repos)" by auto
    have "main fmt cfg w file0
            = Some \<lparr> outcome = Inl e, local_file = Some md,
                     events = map ListingRequest reqs @ [LocalSave md] @ map SinkPost sent \<rparr>"
      using assms m Inl Written by (simp add: main_def)
    then show ?thesis using nwf by (auto simp: image_iff)
  next
    case (Inr n)
    have run: "main fmt cfg w file0
            = Some \<lparr> outcome = Inr (), local_file = Some md,
                     events = map ListingRequest reqs @ [LocalSave md] @ map SinkPost sent
                              @ [DocGet, DocPut payload]
                              @ (case result of Inl e \<Rightarrow> [CommitFailureReport e] | Inr u \<Rightarrow> []) \<rparr>"
      using assms m Inr c Written by (simp add: main_def)
    show ?thesis
      unfolding run using c Written by (auto split: sum.splits)
  qed
qed

theorem local_save_precedes_publish_witness:
  "present (github_username sync_config) \<and> present (github_token sync_config)
   \<and> (\<exists>repos md r. fetch_starred_repos_sync (listing conflict_world) = Some (Inr repos, [1])
         \<and> repos \<noteq> []
         \<and> generate_markdown str_of (render_time conflict_world) repos = Inr (repos, md)
         \<and> local_write conflict_world md = Written
         \<and> main str_of sync_config conflict_world None = Some r
         \<and> local_file r = Some md
         \<and> take 2 (events r) = [ListingRequest 1, LocalSave md]
         \<and> outcome r = Inr ()
         \<and> last (events r) = CommitFailureReport (HTTPError 409))
   \<and> (\<exists>repos md r. fetch_starred_repos_sync (listing full_disk_world) = Some (Inr repos, [1])
         \<and> generate_markdown str_of (render_time full_disk_world) repos = Inr (repos, md)
         \<and> local_write full_disk_world md = WriteFailed OSError []
         \<and> main str_of sync_config full_disk_world (Some ''old'') = Some r
         \<and> events r = [ListingRequest 1, LocalSave md]
         \<and> outcome r = Inl OSError \<and> local_file r = Some [])"
proof -
  let ?rec = "\<lparr> name = JStr ''octo/cat'', description = JStr '''', url = JStr '''',
                     language = JStr ''Unknown'', topics = JArr [], stars = JNum 0,
                     starred_at = JStr '''', last_updated = JStr '''', homepage = JStr '''' \<rparr>"
  have u: "present (github_username sync_config)" and t: "present (github_token sync_config)"
    by (simp_all add: sync_config_def present_def)
  have f: "fetch_starred_repos_sync (listing conflict_world) = Some (Inr [?rec], [1])"
    using one_star_fetch by (simp add: conflict_world_def)
  have f': "fetch_starred_repos_sync (listing full_disk_world) = Some (Inr [?rec], [1])"
    using one_star_fetch by (simp add: full_disk_world_def conflict_world_def)
  have ne: "[?rec] \<noteq> []" by simp
  obtain md where g: "generate_markdown str_of (render_time conflict_world) [?rec] = Inr ([?rec], md)"
    by (simp add: generate_markdown_def py_sorted_reverse_def render_section_def topics_str_def
          lang_badge_def)
  have g': "generate_markdown str_of (render_time full_disk_world) [?rec] = Inr ([?rec], md)"
    using g by (simp add: conflict_world_def full_disk_world_def)
  have wr: "local_write conflict_world md = Written" by (simp add: conflict_world_def)
  have wr': "local_write full_disk_world md = WriteFailed OSError []"
    by (simp add: full_disk_world_def conflict_world_def)
  have nokey: "\<not> present (supermemory_api_key sync_config)"
    by (simp add: sync_config_def present_def)
  have fail: "fst (commit_to_github (commit_time conflict_world) (target_branch sync_config) md
                     (doc_get conflict_world) (doc_put conflict_world)) = Inl (HTTPError 409)"
    by (simp add: commit_to_github_def commit_to_github_with_def Let_def conflict_world_def
          raise_for_status_def)
  from local_save_precedes_publish[OF u t f ne g, of None] obtain r rest where
    r: "main str_of sync_config conflict_world None = Some r"
       "events r = map ListingRequest [1] @ LocalSave md # rest"
       "local_write conflict_world md = Written \<longrightarrow> local_file r = Some md"
       "local_write conflict_world md = Written
          \<and> (\<not> present (supermemory_api_key sync_config)
               \<or> list_all (\<lambda>r. topics_ok (topics r)) [?rec]) \<longrightarrow> DocGet \<in> set rest"
       "\<forall>e. DocGet \<in> set rest
              \<and> fst (commit_to_github (commit_time conflict_world) (target_branch sync_config) md
                       (doc_get conflict_world) (doc_put conflict_world)) = Inl e
            \<longrightarrow> outcome r = Inr () \<and> local_file r = Some md
                \<and> last (events r) = CommitFailureReport e"
    by blast
  from r(4) nokey wr have d: "DocGet \<in> set rest" by blast
  from r(5) d fail have o: "outcome r = Inr ()" "last (events r) = CommitFailureReport (HTTPError 409)"
    by blast+
  from r(3) wr have lf: "local_file r = Some md" by blast
  have tk: "take 2 (events r) = [ListingRequest 1, LocalSave md]" using r(2) by simp
  from local_save_precedes_publish[OF u t f' ne g', of "Some ''old''"] obtain r' rest' where
    r': "main str_of sync_config full_disk_world (Some ''old'') = Some r'"
        "events r' = map ListingRequest [1] @ LocalSave md # rest'"
        "DocGet \<in> set rest' \<longleftrightarrow> outcome r' = Inr ()"
    by blast
  from failed_write_ends_run(1)[OF u t f' ne g' wr', of "Some ''old''"] r'(1)
  have v: "events r' = [ListingRequest 1, LocalSave md]" "outcome r' = Inl OSError"
      "local_file r' = Some []"
    by auto
  have first: "\<exists>repos md r. fetch_starred_repos_sync (listing conflict_world) = Some (Inr repos, [1])
         \<and> repos \<noteq> []
         \<and> generate_markdown str_of (render_time conflict_world) repos = Inr (repos, md)
         \<and> local_write conflict_world md = Written
         \<and> main str_of sync_config conflict_world None = Some r
         \<and> local_file r = Some md
         \<and> take 2 (events r) = [ListingRequest 1, LocalSave md]
         \<and> outcome r = Inr ()
         \<and> last (events r) = CommitFailureReport (HTTPError 409)"
    by (rule exI[of _ "[?rec]"], rule exI[of _ md], rule exI[of _ r])
       (use f ne g wr r(1) lf tk o in simp)
  have second: "\<exists>repos md r. fetch_starred_repos_sync (listing full_disk_world)
                                 = Some (Inr repos, [1])
         \<and> generate_markdown str_of (render_time full_disk_world) repos = Inr (repos, md)
         \<and> local_write full_disk_world md = WriteFailed OSError []
         \<and> main str_of sync_config full_disk_world (Some ''old'') = Some r
         \<and> events r = [ListingRequest 1, LocalSave md]
         \<and> outcome r = Inl OSError \<and> local_file r = Some []"
    by (rule exI[of _ "[?rec]"], rule exI[of _ md], rule exI[of _ r'])
       (use f' g' wr' r'(1) v in simp)
  from u t first second show ?thesis by (intro conjI)
qed

end
